theory Spec2Isabelle
  imports Main
begin

section \<open>User management service: data model\<close>

text \<open>
  A shallow embedding of the user store (package userdb), the temp-token endpoints, the
  token renewal endpoint and the account management endpoints (package service).

  Conventions of the embedding:
  \<^item> Go's \<open>int64\<close> values are integers; an addition that takes a caller-supplied
    operand, or that the claims speak about, is wrapped by \<open>int64\<close> explicitly.
  \<^item> An ObjectID is modelled by its hex rendering, so \<open>primitive.ObjectIDFromHex\<close> and
    \<open>ID.Hex()\<close> are the identity on identifiers.
  \<^item> A collection is the list of its documents in natural order; \<open>FindOne\<close>,
    \<open>UpdateOne\<close>, \<open>DeleteOne\<close> and \<open>FindOneAndReplace\<close> act on the first document
    that matches the filter.
  \<^item> Everything a call takes from outside the stores (the clock, random strings, fresh
    object ids, and whether a driver or collaborator call fails) is given by an
    environment value \<open>Env\<close>; one call reads the clock once.
  \<^item> A Go result \<open>(v, err)\<close> is a sum: \<open>Inl\<close> the error, \<open>Inr\<close> the value.
\<close>

subsection \<open>Machine integers\<close>

definition int64 :: "int \<Rightarrow> int" where
  "int64 x = (x + 2 ^ 63) mod 2 ^ 64 - 2 ^ 63"

subsection \<open>Errors\<close>

datatype code = InvalidArgument | PermissionDenied | Internal

text \<open>\<open>status.Error(code, msg)\<close> of the RPC layer.\<close>

datatype status = Status code string

subsection \<open>The user aggregate (package models, as the store and the endpoints use it)\<close>

record Profile =
  p_ID :: string
  p_Alias :: string
  p_AvatarID :: string
  p_ConsentConfirmedAt :: int
  p_MainProfile :: bool
  p_CreatedAt :: int

record Account =
  AccountType :: string
  AccountID :: string
  AccountConfirmedAt :: int
  Password :: string
  RefreshTokens :: "string list"
  PreferredLanguage :: string
  FailedLoginAttempts :: "int list"
  PasswordResetTriggers :: "int list"

record Timestamps =
  LastTokenRefresh :: int
  LastLogin :: int
  CreatedAt :: int
  UpdatedAt :: int
  LastPasswordChange :: int
  ReminderToConfirmSentAt :: int
  MarkedForDeletion :: int

record User =
  ID :: string
  Account :: Account
  Roles :: "string list"
  Timestamps :: Timestamps
  Profiles :: "Profile list"

record TempToken =
  tt_Token :: string
  tt_UserID :: string
  tt_InstanceID :: string
  tt_Purpose :: string
  tt_Info :: "(string \<times> string) list"
  tt_Expiration :: int

subsection \<open>Process state and environment\<close>

datatype LogEventType = LOG | SECURITY

record LogEvent =
  le_InstanceID :: string
  le_UserID :: string
  le_Type :: LogEventType
  le_Event :: string
  le_Msg :: string

record Email =
  em_InstanceID :: string
  em_To :: "string list"
  em_MessageType :: string

text \<open>
  \<open>users\<close>: the \<open>users\<close> collection of every instance database. \<open>tempTokens\<close>: the
  \<open>temp-tokens\<close> collection of the global database. \<open>lastTempTokenDeleteTime\<close>: the
  package variable of endpoints_temptoken.go. \<open>cleanups\<close>: the
  \<open>go s.CleanExpiredTemptokens(grace)\<close> tasks started so far, oldest first, each with
  the clock reading of the call that started it and its grace argument.
\<close>

record State =
  users :: "string \<Rightarrow> User list"
  tempTokens :: "TempToken list"
  lastTempTokenDeleteTime :: int
  cleanups :: "(int \<times> int) list"
  logEvents :: "LogEvent list"
  emails :: "Email list"

datatype call =
    GetUserByID_call | GetUserByAccountID_call | UpdateUser_call | DeleteUser_call
  | UpdateOne_call | Find_call
  | AddTempToken_call | GetTempTokenForUser_call | DeleteAllTempTokenForUser_call
  | GenerateNewToken_call | GenerateUniqueTokenString_call | SendInstantEmail_call

text \<open>
  \<open>now\<close>: \<open>time.Now().Unix()\<close>. \<open>fault c\<close>: the error the driver, the random source
  or the collaborator returns for call \<open>c\<close>, if it fails. \<open>uniqueToken\<close>: the string
  \<open>tokens.GenerateUniqueTokenString()\<close> returns. \<open>newObjectID\<close>:
  \<open>primitive.NewObjectID()\<close>.
\<close>

record Env =
  now :: int
  fault :: "call \<Rightarrow> string option"
  uniqueToken :: string
  newObjectID :: string

section \<open>Documents and filters of the store\<close>

datatype bson =
    BInt int | BStr string | BBool bool | BDoc "(string \<times> bson) list" | BArr "bson list"

text \<open>The operators the store's filters use: equality, \<open>$gt\<close>, \<open>$lt\<close>, \<open>$not\<close>.\<close>

datatype cond = QEq bson | QGt int | QLt int | QNot cond

text \<open>\<open>Field path cond\<close> is \<open>bson.M{path: cond}\<close>; \<open>QAnd\<close> is \<open>$and\<close>.\<close>

datatype query = Field string cond | QAnd "query list"

fun splitDots :: "string \<Rightarrow> string list" where
  "splitDots [] = [[]]"
| "splitDots (c # cs) =
     (if c = CHR ''.'' then [] # splitDots cs
      else (case splitDots cs of [] \<Rightarrow> [[c]] | w # ws \<Rightarrow> (c # w) # ws))"

fun getField :: "string \<Rightarrow> bson \<Rightarrow> bson option" where
  "getField k (BDoc kvs) = map_of kvs k"
| "getField k (BInt v) = None"
| "getField k (BStr v) = None"
| "getField k (BBool v) = None"
| "getField k (BArr v) = None"

fun getPath :: "string list \<Rightarrow> bson \<Rightarrow> bson option" where
  "getPath [] d = Some d"
| "getPath (k # ks) d = (case getField k d of None \<Rightarrow> None | Some v \<Rightarrow> getPath ks v)"

text \<open>
  A comparison holds for a field that exists and holds a number; on a missing field
  \<open>$gt\<close> and \<open>$lt\<close> do not match, and \<open>$not\<close> matches exactly when its operand does not.
\<close>

fun holds :: "cond \<Rightarrow> bson option \<Rightarrow> bool" where
  "holds (QEq b) v = (v = Some b)"
| "holds (QGt n) v = (case v of Some (BInt x) \<Rightarrow> n < x | _ \<Rightarrow> False)"
| "holds (QLt n) v = (case v of Some (BInt x) \<Rightarrow> x < n | _ \<Rightarrow> False)"
| "holds (QNot c) v = (\<not> holds c v)"

fun matches :: "query \<Rightarrow> bson \<Rightarrow> bool" where
  "matches (Field p c) d = holds c (getPath (splitDots p) d)"
| "matches (QAnd qs) d = list_all (\<lambda>q. matches q d) qs"

text \<open>
  The stored form of a user: the fields the store's filters and updates address, under
  the names they address them by (\<open>account.accountID\<close>, \<open>timestamps.markedForDeletion\<close>, ...).
\<close>

definition timestampsToBSON :: "Timestamps \<Rightarrow> bson" where
  "timestampsToBSON t = BDoc
     [(''lastTokenRefresh'', BInt (LastTokenRefresh t)),
      (''lastLogin'', BInt (LastLogin t)),
      (''createdAt'', BInt (CreatedAt t)),
      (''updatedAt'', BInt (UpdatedAt t)),
      (''lastPasswordChange'', BInt (LastPasswordChange t)),
      (''reminderToConfirmSentAt'', BInt (ReminderToConfirmSentAt t)),
      (''markedForDeletion'', BInt (MarkedForDeletion t))]"

definition accountToBSON :: "Account \<Rightarrow> bson" where
  "accountToBSON a = BDoc
     [(''type'', BStr (AccountType a)),
      (''accountID'', BStr (AccountID a)),
      (''accountConfirmedAt'', BInt (AccountConfirmedAt a)),
      (''password'', BStr (Password a)),
      (''refreshTokens'', BArr (map BStr (RefreshTokens a))),
      (''preferredLanguage'', BStr (PreferredLanguage a)),
      (''failedLoginAttempts'', BArr (map BInt (FailedLoginAttempts a))),
      (''passwordResetTriggers'', BArr (map BInt (PasswordResetTriggers a)))]"

definition toBSON :: "User \<Rightarrow> bson" where
  "toBSON u = BDoc
     [(''_id'', BStr (ID u)),
      (''account'', accountToBSON (Account u)),
      (''roles'', BArr (map BStr (Roles u))),
      (''timestamps'', timestampsToBSON (Timestamps u))]"

definition userMatches :: "query \<Rightarrow> User \<Rightarrow> bool" where
  "userMatches q u = matches q (toBSON u)"

subsection \<open>Collection operations of the driver\<close>

fun updateFirst :: "('a \<Rightarrow> bool) \<Rightarrow> ('a \<Rightarrow> 'a) \<Rightarrow> 'a list \<Rightarrow> 'a list" where
  "updateFirst P f [] = []"
| "updateFirst P f (x # xs) = (if P x then f x # xs else x # updateFirst P f xs)"

fun deleteFirst :: "('a \<Rightarrow> bool) \<Rightarrow> 'a list \<Rightarrow> 'a list" where
  "deleteFirst P [] = []"
| "deleteFirst P (x # xs) = (if P x then xs else x # deleteFirst P xs)"

text \<open>\<open>MatchedCount\<close> of \<open>UpdateOne\<close>, \<open>DeletedCount\<close> of \<open>DeleteOne\<close>: 1 or 0.\<close>

definition matchedCount :: "('a \<Rightarrow> bool) \<Rightarrow> 'a list \<Rightarrow> nat" where
  "matchedCount P xs = (case find P xs of None \<Rightarrow> 0 | Some x \<Rightarrow> 1)"

definition setUsers :: "State \<Rightarrow> string \<Rightarrow> User list \<Rightarrow> State" where
  "setUsers st instanceID us = st\<lparr>users := (users st)(instanceID := us)\<rparr>"

section \<open>Package userdb\<close>

definition GetUserByID :: "Env \<Rightarrow> State \<Rightarrow> string \<Rightarrow> string \<Rightarrow> string + User" where
  "GetUserByID env st instanceID uid =
     (case fault env GetUserByID_call of
        Some e \<Rightarrow> Inl e
      | None \<Rightarrow>
          (case find (userMatches (Field ''_id'' (QEq (BStr uid)))) (users st instanceID) of
             None \<Rightarrow> Inl ''mongo: no documents in result''
           | Some elem \<Rightarrow> Inr elem))"

definition GetUserByAccountID :: "Env \<Rightarrow> State \<Rightarrow> string \<Rightarrow> string \<Rightarrow> string + User" where
  "GetUserByAccountID env st instanceID username =
     (case fault env GetUserByAccountID_call of
        Some e \<Rightarrow> Inl e
      | None \<Rightarrow>
          (case find (userMatches (Field ''account.accountID'' (QEq (BStr username))))
                  (users st instanceID) of
             None \<Rightarrow> Inl ''mongo: no documents in result''
           | Some elem \<Rightarrow> Inr elem))"

text \<open>\<open>_updateUserInDB\<close>: find by \<open>_id\<close> and replace, returning the document after.\<close>

definition updateUserInDB :: "Env \<Rightarrow> State \<Rightarrow> string \<Rightarrow> User \<Rightarrow> (string + User) \<times> State" where
  "updateUserInDB env st orgID user =
     (let flt = userMatches (Field ''_id'' (QEq (BStr (ID user)))) in
      case fault env UpdateUser_call of
        Some e \<Rightarrow> (Inl e, st)
      | None \<Rightarrow>
          (case find flt (users st orgID) of
             None \<Rightarrow> (Inl ''mongo: no documents in result'', st)
           | Some old \<Rightarrow>
               (Inr user, setUsers st orgID (updateFirst flt (\<lambda>_. user) (users st orgID)))))"

definition UpdateUser :: "Env \<Rightarrow> State \<Rightarrow> string \<Rightarrow> User \<Rightarrow> (string + User) \<times> State" where
  "UpdateUser env st instanceID updatedUser =
     updateUserInDB env st instanceID
       (updatedUser\<lparr>Timestamps := (Timestamps updatedUser)\<lparr>UpdatedAt := now env\<rparr>\<rparr>)"

definition UpdateMarkedForDeletionTime ::
  "Env \<Rightarrow> State \<Rightarrow> string \<Rightarrow> string \<Rightarrow> int \<Rightarrow> bool \<Rightarrow> (string + bool) \<times> State" where
  "UpdateMarkedForDeletionTime env st instanceID uid dT2 reset =
     (if reset then
        (let flt = userMatches (Field ''_id'' (QEq (BStr uid))) in
         case fault env UpdateOne_call of
           Some e \<Rightarrow> (Inl e, st)
         | None \<Rightarrow>
             (if matchedCount flt (users st instanceID) > 0
              then (Inr True,
                    setUsers st instanceID
                      (updateFirst flt
                         (\<lambda>u. u\<lparr>Timestamps := (Timestamps u)\<lparr>MarkedForDeletion := 0\<rparr>\<rparr>)
                         (users st instanceID)))
              else (Inr False, st)))
      else
        (let flt = userMatches (QAnd
                     [Field ''_id'' (QEq (BStr uid)),
                      Field ''timestamps.markedForDeletion'' (QNot (QGt 0))]) in
         case fault env UpdateOne_call of
           Some e \<Rightarrow> (Inl e, st)
         | None \<Rightarrow>
             (if matchedCount flt (users st instanceID) > 0
              then (Inr True,
                    setUsers st instanceID
                      (updateFirst flt
                         (\<lambda>u. u\<lparr>Timestamps := (Timestamps u)
                                  \<lparr>MarkedForDeletion := int64 (now env + dT2)\<rparr>\<rparr>)
                         (users st instanceID)))
              else (Inr False, st))))"

definition DeleteUser :: "Env \<Rightarrow> State \<Rightarrow> string \<Rightarrow> string \<Rightarrow> string option \<times> State" where
  "DeleteUser env st instanceID uid =
     (let flt = userMatches (Field ''_id'' (QEq (BStr uid))) in
      case fault env DeleteUser_call of
        Some e \<Rightarrow> (Some e, st)
      | None \<Rightarrow>
          (if matchedCount flt (users st instanceID) < 1
           then (Some ''no user found with the given id'', st)
           else (None, setUsers st instanceID (deleteFirst flt (users st instanceID)))))"

definition FindUsersMarkedForDeletion :: "Env \<Rightarrow> State \<Rightarrow> string \<Rightarrow> string + User list" where
  "FindUsersMarkedForDeletion env st instanceID =
     (let flt = userMatches (QAnd
                  [Field ''timestamps.timestamps.markedForDeletion'' (QGt 0),
                   Field ''timestamps.timestamps.markedForDeletion'' (QLt (now env))]) in
      case fault env Find_call of
        Some e \<Rightarrow> Inl e
      | None \<Rightarrow> Inr (filter flt (users st instanceID)))"

section \<open>Package models: transformations of the user aggregate\<close>

text \<open>
  Modelled from the spec: \<open>AddRefreshToken\<close> of pkg/models is not among the sources.
  Section 4.G: "append, then retain only the newest 10 by insertion order".
\<close>

definition AddRefreshToken :: "User \<Rightarrow> string \<Rightarrow> User" where
  "AddRefreshToken u t =
     (let ts = RefreshTokens (Account u) @ [t]
      in u\<lparr>Account := (Account u)\<lparr>RefreshTokens := drop (length ts - 10) ts\<rparr>\<rparr>)"

text \<open>
  Modelled from the spec: \<open>RemoveRefreshToken\<close> of pkg/models is not among the sources.
  Section 4.G: "returns wrong-refresh-token if not present (used to detect replay)";
  a token that is present is taken out of its slot.
\<close>

definition RemoveRefreshToken :: "User \<Rightarrow> string \<Rightarrow> string + User" where
  "RemoveRefreshToken u t =
     (if t \<in> set (RefreshTokens (Account u))
      then Inr (u\<lparr>Account := (Account u)\<lparr>RefreshTokens := remove1 t (RefreshTokens (Account u))\<rparr>\<rparr>)
      else Inl ''wrong-refresh-token'')"

text \<open>
  Modelled from the spec: \<open>AddProfile\<close>, \<open>UpdateProfile\<close> and \<open>RemoveProfile\<close> of
  pkg/models are not among the sources. Section 4.G: they "enforce non-empty profile
  list, unique id, main profile invariant (removing the main profile promotes the next
  one)"; section 3: the main profile "is the first profile created". An added profile
  gets a fresh id and is the main profile only when it is the first; an update keeps the
  stored main-profile flag; a removal of the main profile makes the profile after it
  (the first one, when it was the last) the main profile.
\<close>

definition AddProfile :: "Env \<Rightarrow> User \<Rightarrow> Profile \<Rightarrow> User" where
  "AddProfile env u p =
     u\<lparr>Profiles := Profiles u @
          [p\<lparr>p_ID := newObjectID env, p_CreatedAt := now env,
             p_MainProfile := (Profiles u = [])\<rparr>]\<rparr>"

definition UpdateProfile :: "User \<Rightarrow> Profile \<Rightarrow> string + User" where
  "UpdateProfile u p =
     (case find (\<lambda>c. p_ID c = p_ID p) (Profiles u) of
        None \<Rightarrow> Inl ''profile with given ID not found''
      | Some c \<Rightarrow>
          Inr (u\<lparr>Profiles := updateFirst (\<lambda>c. p_ID c = p_ID p)
                               (\<lambda>c. p\<lparr>p_MainProfile := p_MainProfile c\<rparr>) (Profiles u)\<rparr>))"

definition promote :: "nat \<Rightarrow> Profile list \<Rightarrow> Profile list" where
  "promote i ps =
     (let j = (if i < length ps then i else 0)
      in if j < length ps then ps[j := (ps ! j)\<lparr>p_MainProfile := True\<rparr>] else ps)"

definition RemoveProfile :: "User \<Rightarrow> string \<Rightarrow> string + User" where
  "RemoveProfile u pid =
     (case find (\<lambda>c. p_ID c = pid) (Profiles u) of
        None \<Rightarrow> Inl ''profile with given ID not found''
      | Some c \<Rightarrow>
          (if length (Profiles u) \<le> 1 then Inl ''cannot remove the last profile''
           else
             (let i = length (takeWhile (\<lambda>c. p_ID c \<noteq> pid) (Profiles u));
                  rest = deleteFirst (\<lambda>c. p_ID c = pid) (Profiles u)
              in Inr (u\<lparr>Profiles := (if p_MainProfile c then promote i rest else rest)\<rparr>))))"

section \<open>Package utils\<close>

text \<open>
  Modelled from the spec: \<open>GetMainAndOtherProfiles\<close> of pkg/utils is not among the
  sources. It yields the id of the user's main profile (section 3: exactly one profile
  has \<open>mainProfile=true\<close>) and the ids of the other profiles.
\<close>

definition GetMainAndOtherProfiles :: "User \<Rightarrow> string \<times> string list" where
  "GetMainAndOtherProfiles u =
     ((case find p_MainProfile (Profiles u) of None \<Rightarrow> [] | Some p \<Rightarrow> p_ID p),
      map p_ID (filter (\<lambda>p. \<not> p_MainProfile p) (Profiles u)))"

record TokenInfos =
  ti_Id :: string
  ti_InstanceId :: string

text \<open>
  Modelled from the spec: \<open>IsTokenEmpty\<close> of pkg/utils is not among the sources.
  Section 4.I: the endpoints "require an authenticated caller"; the token is empty when
  it is nil or names no user or no instance.
\<close>

definition IsTokenEmpty :: "TokenInfos option \<Rightarrow> bool" where
  "IsTokenEmpty t =
     (case t of None \<Rightarrow> True | Some tok \<Rightarrow> ti_Id tok = [] \<or> ti_InstanceId tok = [])"

section \<open>Package tokens\<close>

text \<open>Go's \<open>time.Duration\<close> counts nanoseconds.\<close>

definition Second :: int where "Second = 1000000000"
definition Minute :: int where "Minute = 60 * Second"
definition Hour :: int where "Hour = 60 * Minute"

record Payload =
  pl_roles :: "string list"
  pl_username :: string

text \<open>The claims of an access token (section 4.B).\<close>

record Claims =
  tok_ID :: string
  tok_InstanceID :: string
  tok_ProfileID :: string
  tok_OtherProfileIDs :: "string list"
  tok_AccountConfirmed :: bool
  tok_Payload :: Payload
  tok_TempTokenInfos :: "TempToken option"
  tok_IssuedAt :: int
  tok_ExpiresAt :: int

text \<open>
  A compact signed token is modelled by the claims it carries; \<open>Opaque s\<close> is a string
  that is not a token signed with the service's key (the empty string among them).
\<close>

datatype jwt = Signed Claims | Opaque string

text \<open>\<open>TokenExpired\<close> is the error whose text contains "token is expired by".\<close>

datatype tokenError = TokenExpired | TokenInvalid

definition emptyClaims :: Claims where
  "emptyClaims = \<lparr>tok_ID = [], tok_InstanceID = [], tok_ProfileID = [],
     tok_OtherProfileIDs = [], tok_AccountConfirmed = False,
     tok_Payload = \<lparr>pl_roles = [], pl_username = []\<rparr>, tok_TempTokenInfos = None,
     tok_IssuedAt = 0, tok_ExpiresAt = 0\<rparr>"

text \<open>
  Modelled from the spec: \<open>ValidateToken\<close>, \<open>GenerateNewToken\<close>, \<open>GetRolesFromPayload\<close>,
  \<open>GetUsernameFromPayload\<close>, \<open>GetExpirationTime\<close> and \<open>GenerateUniqueTokenString\<close> of
  pkg/tokens are not among the sources. Section 4.B: tokens carry the claims
  \<open>{id, instanceId, profileId, otherProfileIds, accountConfirmed, payload{roles, username},
  tempToken?, issuedAt, expiresAt}\<close>; "Verify returns (claims, ok, err) where err
  distinguishes expired from malformed/invalid". \<open>GetExpirationTime d\<close> is the Unix time
  \<open>d\<close> from now (\<open>time.Now().Add(d).Unix()\<close>), exact for a whole number of seconds.
\<close>

definition ValidateToken :: "Env \<Rightarrow> jwt \<Rightarrow> Claims \<times> bool \<times> tokenError option" where
  "ValidateToken env t =
     (case t of
        Signed c \<Rightarrow>
          (if tok_ExpiresAt c < now env then (c, False, Some TokenExpired)
           else (c, True, None))
      | Opaque s \<Rightarrow> (emptyClaims, False, Some TokenInvalid))"

definition GetRolesFromPayload :: "Payload \<Rightarrow> string list" where
  "GetRolesFromPayload p = pl_roles p"

definition GetUsernameFromPayload :: "Payload \<Rightarrow> string" where
  "GetUsernameFromPayload p = pl_username p"

definition GetExpirationTime :: "Env \<Rightarrow> int \<Rightarrow> int" where
  "GetExpirationTime env validityPeriod = now env + validityPeriod div Second"

definition GenerateNewToken ::
  "Env \<Rightarrow> string \<Rightarrow> bool \<Rightarrow> string \<Rightarrow> string list \<Rightarrow> string \<Rightarrow> int \<Rightarrow> string \<Rightarrow>
   TempToken option \<Rightarrow> string list \<Rightarrow> string + jwt" where
  "GenerateNewToken env userID userConfirmed profileID userRoles instanceID experiesIn
       username tempTokenInfos otherProfileIDs =
     (case fault env GenerateNewToken_call of
        Some e \<Rightarrow> Inl e
      | None \<Rightarrow>
          Inr (Signed \<lparr>tok_ID = userID, tok_InstanceID = instanceID,
                       tok_ProfileID = profileID, tok_OtherProfileIDs = otherProfileIDs,
                       tok_AccountConfirmed = userConfirmed,
                       tok_Payload = \<lparr>pl_roles = userRoles, pl_username = username\<rparr>,
                       tok_TempTokenInfos = tempTokenInfos,
                       tok_IssuedAt = now env,
                       tok_ExpiresAt = GetExpirationTime env experiesIn\<rparr>))"

definition GenerateUniqueTokenString :: "Env \<Rightarrow> string + string" where
  "GenerateUniqueTokenString env =
     (case fault env GenerateUniqueTokenString_call of
        Some e \<Rightarrow> Inl e
      | None \<Rightarrow> Inr (uniqueToken env))"

section \<open>Package globaldb: the temp-token store\<close>

text \<open>
  Modelled from the spec: \<open>AddTempToken\<close>, \<open>GetTempTokenForUser\<close> and
  \<open>DeleteAllTempTokenForUser\<close> of pkg/dbs/globaldb are not among the sources.
  Section 4.E: "\<open>Add(token) \<rightarrow> tokenString\<close> (generates the string via 4.C)",
  "\<open>GetForUser(instance, userId, purpose?) \<rightarrow> []\<close>",
  "\<open>DeleteAllForUser(instance, userId, purpose?)\<close>"; an empty purpose selects every
  purpose.
\<close>

definition tempTokenFor :: "string \<Rightarrow> string \<Rightarrow> string \<Rightarrow> TempToken \<Rightarrow> bool" where
  "tempTokenFor instanceID uid purpose t =
     (tt_InstanceID t = instanceID \<and> tt_UserID t = uid \<and>
      (purpose = [] \<or> tt_Purpose t = purpose))"

definition AddTempToken :: "Env \<Rightarrow> State \<Rightarrow> TempToken \<Rightarrow> (string + string) \<times> State" where
  "AddTempToken env st t =
     (case GenerateUniqueTokenString env of
        Inl e \<Rightarrow> (Inl e, st)
      | Inr s \<Rightarrow>
          (case fault env AddTempToken_call of
             Some e \<Rightarrow> (Inl e, st)
           | None \<Rightarrow> (Inr s, st\<lparr>tempTokens := tempTokens st @ [t\<lparr>tt_Token := s\<rparr>]\<rparr>)))"

definition GetTempTokenForUser ::
  "Env \<Rightarrow> State \<Rightarrow> string \<Rightarrow> string \<Rightarrow> string \<Rightarrow> string + TempToken list" where
  "GetTempTokenForUser env st instanceID uid purpose =
     (case fault env GetTempTokenForUser_call of
        Some e \<Rightarrow> Inl e
      | None \<Rightarrow> Inr (filter (tempTokenFor instanceID uid purpose) (tempTokens st)))"

definition DeleteAllTempTokenForUser ::
  "Env \<Rightarrow> State \<Rightarrow> string \<Rightarrow> string \<Rightarrow> string \<Rightarrow> string option \<times> State" where
  "DeleteAllTempTokenForUser env st instanceID uid purpose =
     (case fault env DeleteAllTempTokenForUser_call of
        Some e \<Rightarrow> (Some e, st)
      | None \<Rightarrow>
          (None, st\<lparr>tempTokens :=
                      filter (\<lambda>t. \<not> tempTokenFor instanceID uid purpose t) (tempTokens st)\<rparr>))"

section \<open>Package service\<close>

subsection \<open>Server, requests and responses\<close>

record Server =
  TokenExpiryInterval :: int
  instanceIDs :: "string list"

record RefreshJWTRequest =
  rj_AccessToken :: jwt
  rj_RefreshToken :: string

record TokenResponse =
  tr_AccessToken :: jwt
  tr_RefreshToken :: string
  tr_AccountConfirmed :: bool
  tr_ExpiresIn :: int
  tr_SelectedProfileId :: string
  tr_Profiles :: "Profile list"
  tr_PreferredLanguage :: string

record UserReference =
  ur_Token :: "TokenInfos option"
  ur_UserId :: string

record ProfileRequest =
  pr_Token :: "TokenInfos option"
  pr_Profile :: "Profile option"

record TempTokenInfo =
  tti_UserId :: string
  tti_InstanceId :: string
  tti_Purpose :: string
  tti_Info :: "(string \<times> string) list"
  tti_Expiration :: int

record InitiateResetPasswordMsg =
  ir_InstanceId :: string
  ir_AccountId :: string

text \<open>\<open>api.ServiceStatus\<close> with status \<open>NORMAL\<close> and the given message.\<close>

datatype ServiceStatus = ServiceStatus_NORMAL string

definition int32 :: "int \<Rightarrow> int" where
  "int32 x = (x + 2 ^ 31) mod 2 ^ 32 - 2 ^ 31"

text \<open>Go's integer division truncates towards zero.\<close>

definition quot :: "int \<Rightarrow> int \<Rightarrow> int" where
  "quot a b = sgn a * sgn b * (\<bar>a\<bar> div \<bar>b\<bar>)"

text \<open>
  \<open>SaveLogEvent\<close> hands the event to the logging service and \<open>SendInstantEmail\<close> a
  message to the messaging service; both collaborators are outside the repository and
  are modelled by the lists of what they were sent. An email whose sending fails is not
  delivered.
\<close>

definition SaveLogEvent ::
  "State \<Rightarrow> string \<Rightarrow> string \<Rightarrow> LogEventType \<Rightarrow> string \<Rightarrow> string \<Rightarrow> State" where
  "SaveLogEvent st instanceID userID eventType eventName msg =
     st\<lparr>logEvents := logEvents st @
          [\<lparr>le_InstanceID = instanceID, le_UserID = userID, le_Type = eventType,
            le_Event = eventName, le_Msg = msg\<rparr>]\<rparr>"

definition SendInstantEmail :: "Env \<Rightarrow> State \<Rightarrow> Email \<Rightarrow> string option \<times> State" where
  "SendInstantEmail env st m =
     (case fault env SendInstantEmail_call of
        Some e \<Rightarrow> (Some e, st)
      | None \<Rightarrow> (None, st\<lparr>emails := emails st @ [m]\<rparr>))"

definition isInstanceIDAllowed :: "Server \<Rightarrow> string \<Rightarrow> bool" where
  "isInstanceIDAllowed s instanceID = (instanceID \<in> set (instanceIDs s))"

subsection \<open>endpoints\_jwt.go\<close>

definition RenewJWT ::
  "Server \<Rightarrow> Env \<Rightarrow> State \<Rightarrow> RefreshJWTRequest option \<Rightarrow> (status + TokenResponse) \<times> State" where
  "RenewJWT s env st req =
     (case req of
        None \<Rightarrow> (Inl (Status InvalidArgument ''missing arguments''), st)
      | Some r \<Rightarrow>
     if rj_AccessToken r = Opaque [] \<or> rj_RefreshToken r = []
     then (Inl (Status InvalidArgument ''missing arguments''), st)
     else
     (case ValidateToken env (rj_AccessToken r) of (parsedToken, ok, err) \<Rightarrow>
     if err \<noteq> None \<and> err \<noteq> Some TokenExpired
     then (Inl (Status PermissionDenied ''wrong access token''), st)
     else
     (case GetUserByID env st (tok_InstanceID parsedToken) (tok_ID parsedToken) of
        Inl e \<Rightarrow> (Inl (Status Internal ''user not found''), st)
      | Inr user0 \<Rightarrow>
     (case RemoveRefreshToken user0 (rj_RefreshToken r) of
        Inl e \<Rightarrow>
          (Inl (Status Internal ''wrong refresh token''),
           SaveLogEvent st (tok_InstanceID parsedToken) (tok_ID parsedToken) SECURITY
             ''LOG_EVENT_TOKEN_REFRESH_FAILED'' ''wrong refresh token, cannot renew'')
      | Inr user1 \<Rightarrow>
     (let user2 = user1\<lparr>Timestamps := (Timestamps user1)\<lparr>LastTokenRefresh := now env\<rparr>\<rparr>;
          roles = GetRolesFromPayload (tok_Payload parsedToken);
          username = GetUsernameFromPayload (tok_Payload parsedToken);
          mainProfileID = fst (GetMainAndOtherProfiles user2);
          otherProfileIDs = snd (GetMainAndOtherProfiles user2)
      in
     (case GenerateNewToken env (tok_ID parsedToken) (AccountConfirmedAt (Account user2) > 0)
             mainProfileID roles (tok_InstanceID parsedToken) (TokenExpiryInterval s)
             username None otherProfileIDs of
        Inl e \<Rightarrow> (Inl (Status Internal e), st)
      | Inr newToken \<Rightarrow>
     (case GenerateUniqueTokenString env of
        Inl e \<Rightarrow> (Inl (Status Internal e), st)
      | Inr newRefreshToken \<Rightarrow>
     (case UpdateUser env st (tok_InstanceID parsedToken)
             (AddRefreshToken user2 newRefreshToken) of
        (Inl e, st') \<Rightarrow> (Inl (Status Internal e), st')
      | (Inr user, st') \<Rightarrow>
          (Inr \<lparr>tr_AccessToken = newToken,
                tr_RefreshToken = newRefreshToken,
                tr_AccountConfirmed = (AccountConfirmedAt (Account user) > 0),
                tr_ExpiresIn = int32 (quot (TokenExpiryInterval s) Minute),
                tr_SelectedProfileId = tok_ProfileID parsedToken,
                tr_Profiles = Profiles user,
                tr_PreferredLanguage = PreferredLanguage (Account user)\<rparr>,
           SaveLogEvent st' (tok_InstanceID parsedToken) (tok_ID parsedToken) LOG
             ''LOG_EVENT_TOKEN_REFRESH_SUCCESS'' [])))))))))"

subsection \<open>account\_management\_endpoints.go\<close>

definition DeleteAccount ::
  "Env \<Rightarrow> State \<Rightarrow> UserReference option \<Rightarrow> (status + ServiceStatus) \<times> State" where
  "DeleteAccount env st req =
     (case req of
        None \<Rightarrow> (Inl (Status InvalidArgument ''missing argument''), st)
      | Some r \<Rightarrow>
     (case ur_Token r of
        None \<Rightarrow> (Inl (Status InvalidArgument ''missing argument''), st)
      | Some tok \<Rightarrow>
     if IsTokenEmpty (Some tok) \<or> ur_UserId r = []
     then (Inl (Status InvalidArgument ''missing argument''), st)
     else if ti_Id tok \<noteq> ur_UserId r
     then (Inl (Status PermissionDenied ''not authorized''), st)
     else
     (case GetUserByID env st (ti_InstanceId tok) (ur_UserId r) of
        Inl e \<Rightarrow> (Inl (Status Internal e), st)
      | Inr user \<Rightarrow>
     (let st1 = snd (SendInstantEmail env st
                  \<lparr>em_InstanceID = ti_InstanceId tok,
                   em_To = [AccountID (Account user)],
                   em_MessageType = ''EMAIL_TYPE_ACCOUNT_DELETED''\<rparr>)
      in
     (case DeleteUser env st1 (ti_InstanceId tok) (ur_UserId r) of
        (Some e, st2) \<Rightarrow> (Inl (Status Internal e), st2)
      | (None, st2) \<Rightarrow>
     (let st3 = snd (DeleteAllTempTokenForUser env st2 (ti_InstanceId tok) (ti_Id tok) [])
      in (Inr (ServiceStatus_NORMAL ''user deleted''),
          SaveLogEvent st3 (ti_InstanceId tok) (ti_Id tok) LOG
            ''LOG_EVENT_ACCOUNT_DELETED'' (AccountID (Account user)))))))))"

text \<open>
  \<open>maximumProfilesAllowed\<close> is a constant of the package whose declaration is not among
  the sources; the endpoint takes it as a parameter.
\<close>

definition SaveProfile ::
  "nat \<Rightarrow> Env \<Rightarrow> State \<Rightarrow> ProfileRequest option \<Rightarrow> (status + User) \<times> State" where
  "SaveProfile maximumProfilesAllowed env st req =
     (case req of
        None \<Rightarrow> (Inl (Status InvalidArgument ''missing argument''), st)
      | Some r \<Rightarrow>
     (case (pr_Token r, pr_Profile r) of
        (Some tok, Some profile) \<Rightarrow>
     if IsTokenEmpty (Some tok)
     then (Inl (Status InvalidArgument ''missing argument''), st)
     else
     (case GetUserByID env st (ti_InstanceId tok) (ti_Id tok) of
        Inl e \<Rightarrow> (Inl (Status Internal ''user not found''), st)
      | Inr user \<Rightarrow>
     (case
        (if p_ID profile = [] then
           (if length (Profiles user) > maximumProfilesAllowed
            then Inl (Status Internal ''reached profile limit'',
                      SaveLogEvent st (ti_InstanceId tok) (ti_Id tok) SECURITY
                        ''LOG_EVENT_PROFILE_SAVED''
                        (''too many profiles added'' @ p_Alias profile))
            else Inr (AddProfile env user profile))
         else
           (case UpdateProfile user profile of
              Inl e \<Rightarrow> Inl (Status Internal ''profile not found'', st)
            | Inr user' \<Rightarrow> Inr user'))
      of
        Inl (err, st') \<Rightarrow> (Inl err, st')
      | Inr user' \<Rightarrow>
     (case UpdateUser env st (ti_InstanceId tok) user' of
        (Inl e, st') \<Rightarrow> (Inl (Status Internal e), st')
      | (Inr updUser, st') \<Rightarrow>
          (Inr updUser,
           SaveLogEvent st' (ti_InstanceId tok) (ti_Id tok) LOG
             ''LOG_EVENT_PROFILE_SAVED'' (p_Alias profile)))))
      | _ \<Rightarrow> (Inl (Status InvalidArgument ''missing argument''), st)))"

definition RemoveProfileEndpoint ::
  "Env \<Rightarrow> State \<Rightarrow> ProfileRequest option \<Rightarrow> (status + User) \<times> State" where
  "RemoveProfileEndpoint env st req =
     (case req of
        None \<Rightarrow> (Inl (Status InvalidArgument ''missing argument''), st)
      | Some r \<Rightarrow>
     (case (pr_Token r, pr_Profile r) of
        (Some tok, Some profile) \<Rightarrow>
     if IsTokenEmpty (Some tok)
     then (Inl (Status InvalidArgument ''missing argument''), st)
     else
     (case GetUserByID env st (ti_InstanceId tok) (ti_Id tok) of
        Inl e \<Rightarrow> (Inl (Status Internal ''user not found''), st)
      | Inr user \<Rightarrow>
     if length (Profiles user) = 1
     then (Inl (Status Internal ''can't delete last profile''), st)
     else
     (case RemoveProfile user (p_ID profile) of
        Inl e \<Rightarrow> (Inl (Status Internal e), st)
      | Inr user' \<Rightarrow>
     (case UpdateUser env st (ti_InstanceId tok) user' of
        (Inl e, st') \<Rightarrow> (Inl (Status Internal e), st')
      | (Inr updUser, st') \<Rightarrow>
          (Inr updUser,
           SaveLogEvent st' (ti_InstanceId tok) (ti_Id tok) LOG
             ''LOG_EVENT_PROFILE_REMOVED'' (''id: '' @ p_ID profile)))))
      | _ \<Rightarrow> (Inl (Status InvalidArgument ''missing argument''), st)))"

subsection \<open>endpoints\_temptoken.go\<close>

definition deleteTempTokensMinInterval :: int where
  "deleteTempTokensMinInterval = 10 * 60"

text \<open>
  "Cleanup temptokens if this was not done recently": the block both endpoints begin
  with. The clean-up itself runs as a task of its own; the call only starts it and
  records the time.
\<close>

definition cleanupIfDue :: "Env \<Rightarrow> State \<Rightarrow> State" where
  "cleanupIfDue env st =
     (if int64 (lastTempTokenDeleteTime st + deleteTempTokensMinInterval) < now env
      then st\<lparr>cleanups := cleanups st @ [(now env, 3600)],
              lastTempTokenDeleteTime := now env\<rparr>
      else st)"

definition withDefaultExpiration :: "Env \<Rightarrow> TempToken \<Rightarrow> TempToken" where
  "withDefaultExpiration env tempToken =
     (if tt_Expiration tempToken = 0
      then tempToken\<lparr>tt_Expiration := GetExpirationTime env (Hour * 24 * 10)\<rparr>
      else tempToken)"

definition GetOrCreateTemptoken ::
  "Env \<Rightarrow> State \<Rightarrow> TempTokenInfo option \<Rightarrow> (status + string) \<times> State" where
  "GetOrCreateTemptoken env st req =
     (case req of
        None \<Rightarrow> (Inl (Status InvalidArgument ''missing argument''), st)
      | Some t \<Rightarrow>
     if tti_Purpose t = [] \<or> tti_UserId t = [] \<or> tti_InstanceId t = []
     then (Inl (Status InvalidArgument ''missing argument''), st)
     else
     (let st1 = cleanupIfDue env st in
     (case GetTempTokenForUser env st1 (tti_InstanceId t) (tti_UserId t) (tti_Purpose t) of
        Inl e \<Rightarrow> (Inl (Status Internal e), st1)
      | Inr tList \<Rightarrow>
     (case tList of
        [] \<Rightarrow>
          (let tempToken = \<lparr>tt_Token = [], tt_UserID = tti_UserId t,
                            tt_InstanceID = tti_InstanceId t, tt_Purpose = tti_Purpose t,
                            tt_Info = tti_Info t, tt_Expiration = tti_Expiration t\<rparr>
           in case AddTempToken env st1 (withDefaultExpiration env tempToken) of
                (Inl e, st2) \<Rightarrow> (Inl (Status Internal e), st2)
              | (Inr token, st2) \<Rightarrow> (Inr token, st2))
      | t0 # rest \<Rightarrow> (Inr (tt_Token t0), st1)))))"

definition GenerateTempToken ::
  "Env \<Rightarrow> State \<Rightarrow> TempTokenInfo option \<Rightarrow> (status + string) \<times> State" where
  "GenerateTempToken env st req =
     (case req of
        None \<Rightarrow> (Inl (Status InvalidArgument ''missing argument''), st)
      | Some t \<Rightarrow>
     if tti_Purpose t = []
     then (Inl (Status InvalidArgument ''missing argument''), st)
     else
     (let st1 = cleanupIfDue env st;
          tempToken = \<lparr>tt_Token = [], tt_UserID = tti_UserId t,
                       tt_InstanceID = tti_InstanceId t, tt_Purpose = tti_Purpose t,
                       tt_Info = tti_Info t, tt_Expiration = tti_Expiration t\<rparr>
      in case AddTempToken env st1 (withDefaultExpiration env tempToken) of
           (Inl e, st2) \<Rightarrow> (Inl (Status Internal e), st2)
         | (Inr token, st2) \<Rightarrow> (Inr token, st2)))"

text \<open>A sequence of calls of the two endpoints, each with its environment.\<close>

datatype tempTokenCall =
    CallGenerateTempToken Env "TempTokenInfo option"
  | CallGetOrCreateTemptoken Env "TempTokenInfo option"

fun callEnv :: "tempTokenCall \<Rightarrow> Env" where
  "callEnv (CallGenerateTempToken env req) = env"
| "callEnv (CallGetOrCreateTemptoken env req) = env"

fun tempTokenStep :: "State \<Rightarrow> tempTokenCall \<Rightarrow> State" where
  "tempTokenStep st (CallGenerateTempToken env req) = snd (GenerateTempToken env st req)"
| "tempTokenStep st (CallGetOrCreateTemptoken env req) = snd (GetOrCreateTemptoken env st req)"

fun runTempTokenCalls :: "State \<Rightarrow> tempTokenCall list \<Rightarrow> State" where
  "runTempTokenCalls st [] = st"
| "runTempTokenCalls st (c # cs) = runTempTokenCalls (tempTokenStep st c) cs"

text \<open>
  The invariant of the throttle: the clean-ups started so far are more than 600 seconds
  apart, each with a grace of 3600 seconds, none later than the recorded time of the
  last one.
\<close>

definition throttleInv :: "State \<Rightarrow> bool" where
  "throttleInv st \<longleftrightarrow>
     sorted_wrt (\<lambda>a b. a + 600 < b) (map fst (cleanups st)) \<and>
     list_all (\<lambda>p. snd p = 3600) (cleanups st) \<and>
     list_all (\<lambda>p. fst p \<le> lastTempTokenDeleteTime st) (cleanups st) \<and>
     0 \<le> lastTempTokenDeleteTime st \<and> lastTempTokenDeleteTime st < 2 ^ 62"

subsection \<open>Sequences of profile operations\<close>

datatype profileCall =
    CallSaveProfile Env "ProfileRequest option"
  | CallRemoveProfile Env "ProfileRequest option"

fun profileStep :: "nat \<Rightarrow> State \<Rightarrow> profileCall \<Rightarrow> State" where
  "profileStep n st (CallSaveProfile env req) = snd (SaveProfile n env st req)"
| "profileStep n st (CallRemoveProfile env req) = snd (RemoveProfileEndpoint env st req)"

fun runProfileCalls :: "nat \<Rightarrow> State \<Rightarrow> profileCall list \<Rightarrow> State" where
  "runProfileCalls n st [] = st"
| "runProfileCalls n st (c # cs) = runProfileCalls n (profileStep n st c) cs"

text \<open>Section 3: "\<open>profiles\<close> is non-empty; exactly one main profile".\<close>

definition profilesOK :: "User \<Rightarrow> bool" where
  "profilesOK u = (Profiles u \<noteq> [] \<and> length (filter p_MainProfile (Profiles u)) = 1)"

definition allProfilesOK :: "State \<Rightarrow> bool" where
  "allProfilesOK st = (\<forall>i. list_all profilesOK (users st i))"

subsection \<open>Password reset\<close>

definition SavePasswordResetTrigger :: "Env \<Rightarrow> State \<Rightarrow> string \<Rightarrow> string \<Rightarrow> string option \<times> State" where
  "SavePasswordResetTrigger env st instanceID userID =
     (let flt = userMatches (Field ''_id'' (QEq (BStr userID))) in
      case fault env UpdateOne_call of
        Some e \<Rightarrow> (Some e, st)
      | None \<Rightarrow>
          (None, setUsers st instanceID
             (updateFirst flt
                (\<lambda>u. u\<lparr>Account := (Account u)\<lparr>PasswordResetTriggers :=
                          PasswordResetTriggers (Account u) @ [now env]\<rparr>\<rparr>)
                (users st instanceID))))"

text \<open>
  Modelled from the spec: \<open>CanTriggerPasswordReset\<close> of pkg/models is not among the
  sources. Section 4.G: "true iff fewer than 5 triggers within the last hour".
\<close>

definition CanTriggerPasswordReset :: "Env \<Rightarrow> User \<Rightarrow> bool" where
  "CanTriggerPasswordReset env u =
     (length (filter (\<lambda>t. now env - 3600 < t) (PasswordResetTriggers (Account u))) < 5)"

text \<open>
  Modelled from the spec: the endpoint \<open>InitiatePasswordReset\<close> is not among the sources
  (its test is). Section 4.H: "if user exists and \<open>CanTriggerPasswordReset()\<close>, mint a
  \<open>password-reset\<close> temp-token with 15-minute lifetime, append a trigger timestamp, send
  email. Do not reveal whether the account exists --- always return \<open>OK\<close>"; section 3:
  "Only instance ids registered here are accepted by RPC endpoints". The test expects
  "missing argument" for a nil and for an empty request. A failure of the store or of
  the messaging service on the way is not surfaced, since the answer is always \<open>OK\<close>.
\<close>

definition InitiatePasswordReset ::
  "Server \<Rightarrow> Env \<Rightarrow> State \<Rightarrow> InitiateResetPasswordMsg option \<Rightarrow>
   (status + ServiceStatus) \<times> State" where
  "InitiatePasswordReset s env st req =
     (case req of
        None \<Rightarrow> (Inl (Status InvalidArgument ''missing argument''), st)
      | Some r \<Rightarrow>
     if ir_InstanceId r = [] \<or> ir_AccountId r = []
     then (Inl (Status InvalidArgument ''missing argument''), st)
     else if \<not> isInstanceIDAllowed s (ir_InstanceId r)
     then (Inl (Status InvalidArgument ''invalid instance id''), st)
     else
     (case GetUserByAccountID env st (ir_InstanceId r) (ir_AccountId r) of
        Inl e \<Rightarrow> (Inr (ServiceStatus_NORMAL ''OK''), st)
      | Inr user \<Rightarrow>
     if \<not> CanTriggerPasswordReset env user
     then (Inr (ServiceStatus_NORMAL ''OK''), st)
     else
     (case AddTempToken env st
             \<lparr>tt_Token = [], tt_UserID = ID user, tt_InstanceID = ir_InstanceId r,
              tt_Purpose = ''password-reset'', tt_Info = [],
              tt_Expiration = GetExpirationTime env (Minute * 15)\<rparr> of
        (Inl e, st1) \<Rightarrow> (Inr (ServiceStatus_NORMAL ''OK''), st1)
      | (Inr token, st1) \<Rightarrow>
     (let st2 = snd (SavePasswordResetTrigger env st1 (ir_InstanceId r) (ID user));
          st3 = snd (SendInstantEmail env st2
                  \<lparr>em_InstanceID = ir_InstanceId r,
                   em_To = [AccountID (Account user)],
                   em_MessageType = ''EMAIL_TYPE_PASSWORD_RESET''\<rparr>)
      in (Inr (ServiceStatus_NORMAL ''OK''), st3)))))"

section \<open>Concrete states\<close>

text \<open>The states, environments and requests at which the properties below are evaluated.\<close>

definition env0 :: Env where
  "env0 = \<lparr>now = 1000, fault = (\<lambda>c. None), uniqueToken = ''t-new'', newObjectID = ''p9''\<rparr>"

definition profile1 :: Profile where
  "profile1 = \<lparr>p_ID = ''p1'', p_Alias = ''main'', p_AvatarID = [], p_ConsentConfirmedAt = 0,
     p_MainProfile = True, p_CreatedAt = 1\<rparr>"

definition user1 :: User where
  "user1 = \<lparr>ID = ''u1'',
     Account = \<lparr>AccountType = ''email'', AccountID = ''a@example.org'',
       AccountConfirmedAt = 5, Password = [], RefreshTokens = [''r1''],
       PreferredLanguage = ''en'', FailedLoginAttempts = [], PasswordResetTriggers = []\<rparr>,
     Roles = [''PARTICIPANT''],
     Timestamps = \<lparr>LastTokenRefresh = 0, LastLogin = 0, CreatedAt = 1, UpdatedAt = 1,
       LastPasswordChange = 0, ReminderToConfirmSentAt = 0, MarkedForDeletion = 0\<rparr>,
     Profiles = [profile1]\<rparr>"

definition tempToken1 :: TempToken where
  "tempToken1 = \<lparr>tt_Token = ''t1'', tt_UserID = ''u1'', tt_InstanceID = ''inst1'',
     tt_Purpose = ''password-reset'', tt_Info = [], tt_Expiration = 5000\<rparr>"

definition state1 :: State where
  "state1 = \<lparr>users = (\<lambda>i. if i = ''inst1'' then [user1] else []),
     tempTokens = [tempToken1], lastTempTokenDeleteTime = 0, cleanups = [],
     logEvents = [], emails = []\<rparr>"

definition userMarked :: User where
  "userMarked = user1\<lparr>Timestamps := (Timestamps user1)\<lparr>MarkedForDeletion := 500\<rparr>\<rparr>"

definition stateMarked :: State where
  "stateMarked = state1\<lparr>users := (\<lambda>i. if i = ''inst1'' then [userMarked] else [])\<rparr>"

definition tokenReq0 :: TempTokenInfo where
  "tokenReq0 = \<lparr>tti_UserId = ''u2'', tti_InstanceId = ''inst1'', tti_Purpose = ''invitation'',
     tti_Info = [], tti_Expiration = 0\<rparr>"

definition tokenReq77 :: TempTokenInfo where
  "tokenReq77 = \<lparr>tti_UserId = ''u3'', tti_InstanceId = ''inst1'', tti_Purpose = ''survey-login'',
     tti_Info = [], tti_Expiration = 77\<rparr>"

definition envAt :: "int \<Rightarrow> Env" where
  "envAt t = \<lparr>now = t, fault = (\<lambda>c. None), uniqueToken = ''t-new'', newObjectID = ''p9''\<rparr>"

definition calls3 :: "tempTokenCall list" where
  "calls3 = [CallGenerateTempToken (envAt 1000) (Some tokenReq0),
             CallGetOrCreateTemptoken (envAt 1200) (Some tokenReq0),
             CallGenerateTempToken (envAt 1600) (Some tokenReq77),
             CallGetOrCreateTemptoken (envAt 1601) (Some tokenReq77)]"

definition profileN :: "string \<Rightarrow> Profile" where
  "profileN i = \<lparr>p_ID = i, p_Alias = ''other'', p_AvatarID = [], p_ConsentConfirmedAt = 0,
     p_MainProfile = False, p_CreatedAt = 2\<rparr>"

definition user6 :: User where
  "user6 = user1\<lparr>Profiles := [profile1, profileN ''p2'', profileN ''p3'', profileN ''p4'',
     profileN ''p5'', profileN ''p6'']\<rparr>"

definition state6 :: State where
  "state6 = state1\<lparr>users := (\<lambda>i. if i = ''inst1'' then [user6] else [])\<rparr>"

definition token1 :: TokenInfos where
  "token1 = \<lparr>ti_Id = ''u1'', ti_InstanceId = ''inst1''\<rparr>"

definition addRequest :: ProfileRequest where
  "addRequest = \<lparr>pr_Token = Some token1,
     pr_Profile = Some \<lparr>p_ID = [], p_Alias = ''seventh'', p_AvatarID = [],
       p_ConsentConfirmedAt = 0, p_MainProfile = False, p_CreatedAt = 0\<rparr>\<rparr>"

definition user2 :: User where
  "user2 = user1\<lparr>ID := ''u2'', Account := (Account user1)\<lparr>AccountID := ''b@example.org''\<rparr>\<rparr>"

definition tempToken2 :: TempToken where
  "tempToken2 = \<lparr>tt_Token = ''t2'', tt_UserID = ''u2'', tt_InstanceID = ''inst1'',
     tt_Purpose = ''invitation'', tt_Info = [], tt_Expiration = 6000\<rparr>"

definition tempToken3 :: TempToken where
  "tempToken3 = \<lparr>tt_Token = ''t3'', tt_UserID = ''u1'', tt_InstanceID = ''inst1'',
     tt_Purpose = ''contact-verification'', tt_Info = [], tt_Expiration = 7000\<rparr>"

definition state2 :: State where
  "state2 = \<lparr>users = (\<lambda>i. if i = ''inst1'' then [user1, user2] else []),
     tempTokens = [tempToken1, tempToken2, tempToken3], lastTempTokenDeleteTime = 0,
     cleanups = [], logEvents = [], emails = []\<rparr>"

definition deleteRequest :: UserReference where
  "deleteRequest = \<lparr>ur_Token = Some token1, ur_UserId = ''u1''\<rparr>"

definition envPurgeFails :: Env where
  "envPurgeFails = \<lparr>now = 1000,
     fault = (\<lambda>c. if c = DeleteAllTempTokenForUser_call then Some ''context deadline exceeded''
                   else None),
     uniqueToken = ''t-new'', newObjectID = ''p9''\<rparr>"

definition server0 :: Server where
  "server0 = \<lparr>TokenExpiryInterval = 2 * Minute, instanceIDs = [''inst1'']\<rparr>"

definition claims1 :: Claims where
  "claims1 = \<lparr>tok_ID = ''u1'', tok_InstanceID = ''inst1'', tok_ProfileID = ''p2'',
     tok_OtherProfileIDs = [''p1''], tok_AccountConfirmed = False,
     tok_Payload = \<lparr>pl_roles = [''PARTICIPANT''], pl_username = ''a@example.org''\<rparr>,
     tok_TempTokenInfos = Some tempToken1, tok_IssuedAt = 100, tok_ExpiresAt = 220\<rparr>"

definition userR :: User where
  "userR = user1\<lparr>Account := (Account user1)\<lparr>RefreshTokens := [''r0'', ''r1'', ''r2'']\<rparr>,
     Profiles := [profile1, profileN ''p2'']\<rparr>"

definition stateR :: State where
  "stateR = state1\<lparr>users := (\<lambda>i. if i = ''inst1'' then [userR, user2] else [])\<rparr>"

definition renewRequest :: RefreshJWTRequest where
  "renewRequest = \<lparr>rj_AccessToken = Signed claims1, rj_RefreshToken = ''r1''\<rparr>"

definition mainRequest :: ProfileRequest where
  "mainRequest = \<lparr>pr_Token = Some token1,
     pr_Profile = Some \<lparr>p_ID = ''p1'', p_Alias = ''renamed'', p_AvatarID = [],
       p_ConsentConfirmedAt = 0, p_MainProfile = False, p_CreatedAt = 0\<rparr>\<rparr>"

definition secondRequest :: ProfileRequest where
  "secondRequest = \<lparr>pr_Token = Some token1,
     pr_Profile = Some \<lparr>p_ID = [], p_Alias = ''second'', p_AvatarID = [],
       p_ConsentConfirmedAt = 0, p_MainProfile = True, p_CreatedAt = 0\<rparr>\<rparr>"

definition profileCalls4 :: "profileCall list" where
  "profileCalls4 = [CallRemoveProfile env0 (Some mainRequest),
                    CallSaveProfile env0 (Some secondRequest),
                    CallSaveProfile env0 (Some mainRequest),
                    CallRemoveProfile env0 (Some mainRequest)]"

definition resetKnown :: InitiateResetPasswordMsg where
  "resetKnown = \<lparr>ir_InstanceId = ''inst1'', ir_AccountId = ''a@example.org''\<rparr>"

definition resetUnknown :: InitiateResetPasswordMsg where
  "resetUnknown = \<lparr>ir_InstanceId = ''inst1'', ir_AccountId = ''wrong@test.test''\<rparr>"

section \<open>Properties of the user store\<close>

lemma splitDots_id: "splitDots ''_id'' = [''_id'']" by simp
lemma splitDots_mfd: "splitDots ''timestamps.markedForDeletion'' = [''timestamps'', ''markedForDeletion'']" by simp
lemma splitDots_ttmfd: "splitDots ''timestamps.timestamps.markedForDeletion'' = [''timestamps'', ''timestamps'', ''markedForDeletion'']" by simp

lemma userMatches_id [simp]:
  "userMatches (Field ''_id'' (QEq (BStr i))) u \<longleftrightarrow> ID u = i"
  by (auto simp add: userMatches_def toBSON_def)

lemma getPath_mfd:
  "getPath [''timestamps'', ''markedForDeletion''] (toBSON u) = Some (BInt (MarkedForDeletion (Timestamps u)))"
  by (simp add: toBSON_def timestampsToBSON_def)

lemma getPath_ttmfd:
  "getPath [''timestamps'', ''timestamps'', ''markedForDeletion''] (toBSON u) = None"
  by (simp add: toBSON_def timestampsToBSON_def)

lemma userMatches_unmarked [simp]:
  "userMatches (QAnd [Field ''_id'' (QEq (BStr i)),
       Field ''timestamps.markedForDeletion'' (QNot (QGt 0))]) u
   \<longleftrightarrow> ID u = i \<and> \<not> 0 < MarkedForDeletion (Timestamps u)"
proof -
  have "matches (Field ''timestamps.markedForDeletion'' (QNot (QGt 0))) (toBSON u)
        \<longleftrightarrow> \<not> 0 < MarkedForDeletion (Timestamps u)"
    by (simp only: matches.simps splitDots_mfd getPath_mfd) simp
  moreover have "matches (Field ''_id'' (QEq (BStr i))) (toBSON u) \<longleftrightarrow> ID u = i"
    using userMatches_id [of i u] by (simp only: userMatches_def)
  ultimately show ?thesis
    by (simp only: userMatches_def matches.simps list.pred_inject) simp
qed

lemma userMatches_double_prefix [simp]:
  "userMatches (QAnd [Field ''timestamps.timestamps.markedForDeletion'' (QGt 0),
       Field ''timestamps.timestamps.markedForDeletion'' (QLt n)]) u = False"
  by (simp only: userMatches_def matches.simps splitDots_ttmfd getPath_ttmfd list.pred_inject) simp

lemma userMatches_id_fun:
  "userMatches (Field ''_id'' (QEq (BStr i))) = (\<lambda>u. ID u = i)"
  by (rule ext) simp

lemma userMatches_unmarked_fun:
  "userMatches (QAnd [Field ''_id'' (QEq (BStr i)),
       Field ''timestamps.markedForDeletion'' (QNot (QGt 0))])
   = (\<lambda>u. ID u = i \<and> \<not> 0 < MarkedForDeletion (Timestamps u))"
  by (rule ext) simp

lemma userMatches_double_prefix_fun:
  "userMatches (QAnd [Field ''timestamps.timestamps.markedForDeletion'' (QGt 0),
       Field ''timestamps.timestamps.markedForDeletion'' (QLt n)]) = (\<lambda>u. False)"
  by (rule ext) simp

lemma FindUsersMarkedForDeletion_empty:
  "FindUsersMarkedForDeletion env st inst = (case fault env Find_call of Some e \<Rightarrow> Inl e | None \<Rightarrow> Inr [])"
  by (simp add: FindUsersMarkedForDeletion_def Let_def userMatches_double_prefix_fun
        split: option.splits)

lemma matchedCount_pos: "0 < matchedCount P xs \<longleftrightarrow> (\<exists>x\<in>set xs. P x)"
  by (induction xs) (auto simp add: matchedCount_def)

lemma updateFirst_distinct:
  "distinct (map ID us) \<Longrightarrow>
   updateFirst (\<lambda>x. ID x = i \<and> Q x) f us = map (\<lambda>x. if ID x = i \<and> Q x then f x else x) us"
proof (induction us)
  case Nil
  then show ?case by simp
next
  case (Cons a us)
  show ?case
  proof (cases "ID a = i \<and> Q a")
    case True
    have "ID a \<notin> ID ` set us" using Cons.prems by simp
    with True have "\<forall>x\<in>set us. ID x \<noteq> i" by blast
    then have "map (\<lambda>x. if ID x = i \<and> Q x then f x else x) us = us"
      by (simp add: map_idI)
    with True show ?thesis by simp
  next
    case False
    then have "updateFirst (\<lambda>x. ID x = i \<and> Q x) f (a # us) = a # updateFirst (\<lambda>x. ID x = i \<and> Q x) f us"
      by auto
    moreover have "distinct (map ID us)" using Cons.prems by simp
    ultimately show ?thesis using False Cons.IH by auto
  qed
qed

lemma int64_id: "- (2 ^ 63) \<le> x \<Longrightarrow> x < 2 ^ 63 \<Longrightarrow> int64 x = x"
  unfolding int64_def by (simp add: mod_pos_pos_trivial)

lemma find_ID_distinct:
  "distinct (map ID us) \<Longrightarrow> find (\<lambda>x. ID x = i) us = Some u \<Longrightarrow>
   (\<forall>x\<in>set us. ID x = i \<longleftrightarrow> x = u)"
proof -
  assume d: "distinct (map ID us)" and f: "find (\<lambda>x. ID x = i) us = Some u"
  from f have u: "u \<in> set us" "ID u = i"
    by (auto simp: find_Some_iff)
  from d have "inj_on ID (set us)"
    by (simp add: distinct_map)
  with u show ?thesis
    by (auto dest: inj_onD)
qed

text \<open>
  Claim C3: \<open>FindMarkedForDeletion\<close> returns exactly the users whose
  \<open>timestamps.markedForDeletion\<close> is greater than 0 and less than the current time.
  The filter addresses \<open>timestamps.timestamps.markedForDeletion\<close>, a path no stored user
  has, so the result is empty whatever the store holds: here a user marked at 500 is
  stored, the clock reads 1000, and the user is not returned.
\<close>

theorem FindUsersMarkedForDeletion_at_marked_user:
  "userMarked \<in> set (users stateMarked ''inst1'') \<and>
   0 < MarkedForDeletion (Timestamps userMarked) \<and>
   MarkedForDeletion (Timestamps userMarked) < now env0 \<and>
   FindUsersMarkedForDeletion env0 stateMarked ''inst1'' = Inr []"
proof -
  have "users stateMarked ''inst1'' = [userMarked]"
    by (simp add: stateMarked_def)
  moreover have "MarkedForDeletion (Timestamps userMarked) = 500"
    by (simp add: userMarked_def)
  moreover have "now env0 = 1000" "fault env0 Find_call = None"
    by (simp_all add: env0_def)
  ultimately show ?thesis
    by (simp add: FindUsersMarkedForDeletion_empty)
qed

lemma UpdateMarkedForDeletionTime_cases:
  assumes nofault: "fault env UpdateOne_call = None"
      and dist: "distinct (map ID (users st inst))"
  shows "(case find (\<lambda>x. ID x = uid) (users st inst) of
            None \<Rightarrow> UpdateMarkedForDeletionTime env st inst uid dT2 reset = (Inr False, st)
          | Some u \<Rightarrow>
              UpdateMarkedForDeletionTime env st inst uid dT2 True =
                (Inr True, st\<lparr>users := (users st)(inst :=
                   map (\<lambda>x. if ID x = uid
                              then x\<lparr>Timestamps := (Timestamps x)\<lparr>MarkedForDeletion := 0\<rparr>\<rparr>
                              else x) (users st inst))\<rparr>)
              \<and> (if 0 < MarkedForDeletion (Timestamps u)
                  then UpdateMarkedForDeletionTime env st inst uid dT2 False = (Inr False, st)
                  else UpdateMarkedForDeletionTime env st inst uid dT2 False =
                         (Inr True, st\<lparr>users := (users st)(inst :=
                            map (\<lambda>x. if ID x = uid
                                       then x\<lparr>Timestamps := (Timestamps x)
                                              \<lparr>MarkedForDeletion := int64 (now env + dT2)\<rparr>\<rparr>
                                       else x) (users st inst))\<rparr>)))"
proof (cases "find (\<lambda>x. ID x = uid) (users st inst)")
  case None
  then have no: "\<forall>x\<in>set (users st inst). ID x \<noteq> uid"
    by (simp add: find_None_iff)
  then have "\<not> 0 < matchedCount (\<lambda>x. ID x = uid) (users st inst)"
    and "\<not> 0 < matchedCount (\<lambda>x. ID x = uid \<and> \<not> 0 < MarkedForDeletion (Timestamps x)) (users st inst)"
    by (simp_all add: matchedCount_pos)
  then show ?thesis using None nofault
    by (cases reset)
       (simp_all add: UpdateMarkedForDeletionTime_def Let_def userMatches_id_fun
          userMatches_unmarked_fun)
next
  case (Some u)
  from find_ID_distinct [OF dist Some] have uniq: "\<forall>x\<in>set (users st inst). ID x = uid \<longleftrightarrow> x = u" .
  from Some have uin: "u \<in> set (users st inst)" and uid: "ID u = uid"
    by (auto simp: find_Some_iff)
  have m1: "0 < matchedCount (\<lambda>x. ID x = uid) (users st inst)"
    using uin uid by (auto simp: matchedCount_pos)
  have m2: "0 < matchedCount (\<lambda>x. ID x = uid \<and> \<not> 0 < MarkedForDeletion (Timestamps x)) (users st inst)
            \<longleftrightarrow> \<not> 0 < MarkedForDeletion (Timestamps u)"
    using uin uid uniq by (auto simp: matchedCount_pos)
  have u1: "updateFirst (\<lambda>x. ID x = uid) f (users st inst)
            = map (\<lambda>x. if ID x = uid then f x else x) (users st inst)" for f
    using updateFirst_distinct [OF dist, of uid "\<lambda>_. True" f] by simp
  have u2: "\<not> 0 < MarkedForDeletion (Timestamps u) \<Longrightarrow>
            updateFirst (\<lambda>x. ID x = uid \<and> \<not> 0 < MarkedForDeletion (Timestamps x)) f (users st inst)
            = map (\<lambda>x. if ID x = uid then f x else x) (users st inst)" for f
  proof -
    assume a: "\<not> 0 < MarkedForDeletion (Timestamps u)"
    have "map (\<lambda>x. if ID x = uid \<and> \<not> 0 < MarkedForDeletion (Timestamps x) then f x else x) (users st inst)
          = map (\<lambda>x. if ID x = uid then f x else x) (users st inst)"
      using uniq a by (intro map_cong) auto
    then show ?thesis
      using updateFirst_distinct [OF dist, of uid "\<lambda>x. \<not> 0 < MarkedForDeletion (Timestamps x)" f]
      by simp
  qed
  show ?thesis
    using Some nofault m1 m2 u1 u2
    by (simp add: UpdateMarkedForDeletionTime_def Let_def userMatches_id_fun
          userMatches_unmarked_fun setUsers_def)
qed

lemma find_map_update:
  "find (\<lambda>x. ID x = i) us = Some u \<Longrightarrow> (\<And>x. ID (f x) = ID x) \<Longrightarrow>
   find (\<lambda>x. ID x = i) (map (\<lambda>x. if ID x = i then f x else x) us) = Some (f u)"
  by (induction us) (auto split: if_splits)

lemma map_ID_update:
  "(\<And>x. ID (f x) = ID x) \<Longrightarrow> map ID (map (\<lambda>x. if ID x = i then f x else x) us) = map ID us"
  by (induction us) auto

text \<open>
  Claim C4: for a stored user \<open>u\<close> with id \<open>uid\<close>, \<open>UpdateMarkedForDeletionTime\<close> with
  \<open>reset = true\<close> stores 0 in \<open>timestamps.markedForDeletion\<close> whatever its value, and
  reports that it applied; with \<open>reset = false\<close> it stores \<open>now + delta\<close> (an \<open>int64\<close>
  addition, the plain sum within the \<open>int64\<close> range) only if the current value is not
  greater than 0, and the result tells whether the update applied. In each case the
  other fields of the user and the other users are as before. So a second
  \<open>reset = false\<close> call, made while a value greater than 0 is stored, changes nothing and
  reports that it did not apply.
\<close>

theorem UpdateMarkedForDeletionTime_claim:
  assumes nofault: "fault env UpdateOne_call = None"
      and nofault2: "fault env2 UpdateOne_call = None"
      and dist: "distinct (map ID (users st inst))"
      and found: "find (\<lambda>x. ID x = uid) (users st inst) = Some u"
  shows "UpdateMarkedForDeletionTime env st inst uid dT2 True =
           (Inr True, st\<lparr>users := (users st)(inst :=
              map (\<lambda>x. if ID x = uid
                         then x\<lparr>Timestamps := (Timestamps x)\<lparr>MarkedForDeletion := 0\<rparr>\<rparr>
                         else x) (users st inst))\<rparr>)
       \<and> find (\<lambda>x. ID x = uid)
            (users (snd (UpdateMarkedForDeletionTime env st inst uid dT2 True)) inst) =
           Some (u\<lparr>Timestamps := (Timestamps u)\<lparr>MarkedForDeletion := 0\<rparr>\<rparr>)
       \<and> (\<not> 0 < MarkedForDeletion (Timestamps u) \<longrightarrow>
            UpdateMarkedForDeletionTime env st inst uid dT2 False =
              (Inr True, st\<lparr>users := (users st)(inst :=
                 map (\<lambda>x. if ID x = uid
                            then x\<lparr>Timestamps := (Timestamps x)
                                   \<lparr>MarkedForDeletion := int64 (now env + dT2)\<rparr>\<rparr>
                            else x) (users st inst))\<rparr>)
            \<and> find (\<lambda>x. ID x = uid)
                 (users (snd (UpdateMarkedForDeletionTime env st inst uid dT2 False)) inst) =
                Some (u\<lparr>Timestamps := (Timestamps u)
                        \<lparr>MarkedForDeletion := int64 (now env + dT2)\<rparr>\<rparr>))
       \<and> (0 < MarkedForDeletion (Timestamps u) \<longrightarrow>
            UpdateMarkedForDeletionTime env st inst uid dT2 False = (Inr False, st))
       \<and> (\<not> 0 < MarkedForDeletion (Timestamps u) \<and> 0 < int64 (now env + dT2) \<longrightarrow>
            UpdateMarkedForDeletionTime env2
              (snd (UpdateMarkedForDeletionTime env st inst uid dT2 False)) inst uid dT2' False =
              (Inr False, snd (UpdateMarkedForDeletionTime env st inst uid dT2 False)))
       \<and> (- (2 ^ 63) \<le> now env + dT2 \<and> now env + dT2 < 2 ^ 63 \<longrightarrow>
            int64 (now env + dT2) = now env + dT2)"
proof -
  let ?set = "\<lambda>v (x::User). x\<lparr>Timestamps := (Timestamps x)\<lparr>MarkedForDeletion := v\<rparr>\<rparr>"
  let ?upd = "\<lambda>v. st\<lparr>users := (users st)(inst :=
                 map (\<lambda>x. if ID x = uid then ?set v x else x) (users st inst))\<rparr>"
  note c = UpdateMarkedForDeletionTime_cases [OF nofault dist, of uid dT2]
  have ids: "map ID (map (\<lambda>x. if ID x = uid then ?set v x else x) (users st inst))
             = map ID (users st inst)" for v
    by (rule map_ID_update) simp
  have fnd: "find (\<lambda>x. ID x = uid) (users (?upd v) inst) = Some (?set v u)" for v
    using find_map_update [OF found, of "?set v"] by simp
  have a: "UpdateMarkedForDeletionTime env st inst uid dT2 True = (Inr True, ?upd 0)"
    using c [of True] found by simp
  have b: "UpdateMarkedForDeletionTime env st inst uid dT2 False =
             (Inr True, ?upd (int64 (now env + dT2)))"
    if "\<not> 0 < MarkedForDeletion (Timestamps u)"
    using c [of False] found that by simp
  have d: "UpdateMarkedForDeletionTime env st inst uid dT2 False = (Inr False, st)"
    if "0 < MarkedForDeletion (Timestamps u)"
    using c [of False] found that by simp
  have e: "UpdateMarkedForDeletionTime env2
              (snd (UpdateMarkedForDeletionTime env st inst uid dT2 False)) inst uid dT2' False =
              (Inr False, snd (UpdateMarkedForDeletionTime env st inst uid dT2 False))"
    if n: "\<not> 0 < MarkedForDeletion (Timestamps u)" and p: "0 < int64 (now env + dT2)"
  proof -
    let ?st1 = "?upd (int64 (now env + dT2))"
    have s1: "snd (UpdateMarkedForDeletionTime env st inst uid dT2 False) = ?st1"
      using b [OF n] by simp
    have "users ?st1 inst = map (\<lambda>x. if ID x = uid then ?set (int64 (now env + dT2)) x else x)
                              (users st inst)"
      by simp
    then have dist1: "distinct (map ID (users ?st1 inst))"
      using dist ids [of "int64 (now env + dT2)"] by (simp only:)
    show ?thesis
      using UpdateMarkedForDeletionTime_cases [OF nofault2 dist1, of uid dT2' False]
            fnd [of "int64 (now env + dT2)"] p
      by (simp add: s1)
  qed
  have a': "find (\<lambda>x. ID x = uid)
            (users (snd (UpdateMarkedForDeletionTime env st inst uid dT2 True)) inst) =
           Some (?set 0 u)"
    using fnd [of 0] by (simp only: a snd_conv)
  have b': "find (\<lambda>x. ID x = uid)
                 (users (snd (UpdateMarkedForDeletionTime env st inst uid dT2 False)) inst) =
                Some (?set (int64 (now env + dT2)) u)"
    if "\<not> 0 < MarkedForDeletion (Timestamps u)"
    using fnd [of "int64 (now env + dT2)"] by (simp only: b [OF that] snd_conv)
  show ?thesis
    using a a' b b' d e int64_id by blast
qed

theorem UpdateMarkedForDeletionTime_claim_witness:
  "fault env0 UpdateOne_call = None \<and>
   distinct (map ID (users state1 ''inst1'')) \<and>
   distinct (map ID (users stateMarked ''inst1'')) \<and>
   find (\<lambda>x. ID x = ''u1'') (users state1 ''inst1'') = Some user1 \<and>
   find (\<lambda>x. ID x = ''u1'') (users stateMarked ''inst1'') = Some userMarked \<and>
   MarkedForDeletion (Timestamps user1) = 0 \<and>
   MarkedForDeletion (Timestamps userMarked) = 500 \<and>
   fst (UpdateMarkedForDeletionTime env0 stateMarked ''inst1'' ''u1'' 100 True) = Inr True \<and>
   map (\<lambda>x. MarkedForDeletion (Timestamps x))
     (users (snd (UpdateMarkedForDeletionTime env0 stateMarked ''inst1'' ''u1'' 100 True))
        ''inst1'') = [0] \<and>
   fst (UpdateMarkedForDeletionTime env0 state1 ''inst1'' ''u1'' 100 False) = Inr True \<and>
   map (\<lambda>x. MarkedForDeletion (Timestamps x))
     (users (snd (UpdateMarkedForDeletionTime env0 state1 ''inst1'' ''u1'' 100 False))
        ''inst1'') = [1100] \<and>
   fst (UpdateMarkedForDeletionTime env0 stateMarked ''inst1'' ''u1'' 100 False) = Inr False \<and>
   map (\<lambda>x. MarkedForDeletion (Timestamps x))
     (users (snd (UpdateMarkedForDeletionTime env0 stateMarked ''inst1'' ''u1'' 100 False))
        ''inst1'') = [500] \<and>
   fst (UpdateMarkedForDeletionTime env0
         (snd (UpdateMarkedForDeletionTime env0 state1 ''inst1'' ''u1'' 100 False))
         ''inst1'' ''u1'' 7 False) = Inr False \<and>
   map (\<lambda>x. MarkedForDeletion (Timestamps x))
     (users (snd (UpdateMarkedForDeletionTime env0
                   (snd (UpdateMarkedForDeletionTime env0 state1 ''inst1'' ''u1'' 100 False))
                   ''inst1'' ''u1'' 7 False))
        ''inst1'') = [1100]"
proof -
  have h1: "fault env0 UpdateOne_call = None" by (simp add: env0_def)
  have us: "users state1 ''inst1'' = [user1]" by (simp add: state1_def)
  have um: "users stateMarked ''inst1'' = [userMarked]" by (simp add: stateMarked_def)
  have idu: "ID user1 = ''u1''" by (simp add: user1_def)
  have idm: "ID userMarked = ''u1''" by (simp add: userMarked_def idu)
  have h2: "distinct (map ID (users state1 ''inst1''))" by (simp add: us)
  have h2m: "distinct (map ID (users stateMarked ''inst1''))" by (simp add: um)
  have h3: "find (\<lambda>x. ID x = ''u1'') (users state1 ''inst1'') = Some user1"
    by (simp add: us idu)
  have h3m: "find (\<lambda>x. ID x = ''u1'') (users stateMarked ''inst1'') = Some userMarked"
    by (simp add: um idm)
  have m: "MarkedForDeletion (Timestamps user1) = 0" by (simp add: user1_def)
  have mm: "MarkedForDeletion (Timestamps userMarked) = 500" by (simp add: userMarked_def)
  have n: "now env0 = 1000" by (simp add: env0_def)
  have i: "int64 1100 = 1100" by (simp add: int64_def)
  have nm: "\<not> 0 < MarkedForDeletion (Timestamps user1)" by (simp add: m)
  have pm: "0 < MarkedForDeletion (Timestamps userMarked)" by (simp add: mm)
  have p: "0 < int64 (now env0 + 100)" by (simp add: n i)
  note c = UpdateMarkedForDeletionTime_claim [OF h1 h1 h2 h3, of 100 7]
  note cm = UpdateMarkedForDeletionTime_claim [OF h1 h1 h2m h3m, of 100 7]
  note r1 = cm [THEN conjunct1]
  note r2 = c [THEN conjunct2, THEN conjunct2, THEN conjunct1, THEN mp, OF nm, THEN conjunct1]
  note r3 = cm [THEN conjunct2, THEN conjunct2, THEN conjunct2, THEN conjunct1, THEN mp, OF pm]
  note r4 = c [THEN conjunct2, THEN conjunct2, THEN conjunct2, THEN conjunct2, THEN conjunct1,
               THEN mp, OF conjI [OF nm p]]
  have c1: "fst (UpdateMarkedForDeletionTime env0 stateMarked ''inst1'' ''u1'' 100 True) = Inr True"
    and c1': "map (\<lambda>x. MarkedForDeletion (Timestamps x))
       (users (snd (UpdateMarkedForDeletionTime env0 stateMarked ''inst1'' ''u1'' 100 True))
          ''inst1'') = [0]"
    by (simp_all add: r1 um idm)
  have c2: "fst (UpdateMarkedForDeletionTime env0 state1 ''inst1'' ''u1'' 100 False) = Inr True"
    and c2': "map (\<lambda>x. MarkedForDeletion (Timestamps x))
       (users (snd (UpdateMarkedForDeletionTime env0 state1 ''inst1'' ''u1'' 100 False))
          ''inst1'') = [1100]"
    by (simp_all add: r2 us idu n i)
  have c3: "fst (UpdateMarkedForDeletionTime env0 stateMarked ''inst1'' ''u1'' 100 False) = Inr False"
    and c3': "map (\<lambda>x. MarkedForDeletion (Timestamps x))
       (users (snd (UpdateMarkedForDeletionTime env0 stateMarked ''inst1'' ''u1'' 100 False))
          ''inst1'') = [500]"
    by (simp_all add: r3 um mm)
  have c4: "fst (UpdateMarkedForDeletionTime env0
         (snd (UpdateMarkedForDeletionTime env0 state1 ''inst1'' ''u1'' 100 False))
         ''inst1'' ''u1'' 7 False) = Inr False"
    and c4': "map (\<lambda>x. MarkedForDeletion (Timestamps x))
     (users (snd (UpdateMarkedForDeletionTime env0
                   (snd (UpdateMarkedForDeletionTime env0 state1 ''inst1'' ''u1'' 100 False))
                   ''inst1'' ''u1'' 7 False))
        ''inst1'') = [1100]"
    by (simp_all only: r4 fst_conv snd_conv c2')
  show ?thesis
    using h1 h2 h2m h3 h3m m mm c1 c1' c2 c2' c3 c3' c4 c4' by (intro conjI)
qed

section \<open>Properties of the temp-token endpoints\<close>

lemma GetExpirationTime_ten_days: "GetExpirationTime env (Hour * 24 * 10) = now env + 864000"
  unfolding GetExpirationTime_def Hour_def Minute_def Second_def by simp

lemma AddTempToken_frame [simp]:
  "cleanups (snd (AddTempToken env st t)) = cleanups st"
  "lastTempTokenDeleteTime (snd (AddTempToken env st t)) = lastTempTokenDeleteTime st"
  by (simp_all add: AddTempToken_def split: sum.splits option.splits)

lemma snd_case_result [simp]:
  "snd (case p of (x, s) \<Rightarrow> (case x of Inl e \<Rightarrow> (f e, s) | Inr t \<Rightarrow> (g t, s))) = snd p"
  by (simp split: prod.splits sum.splits)

lemma AddTempToken_Inr:
  "AddTempToken env st t = (Inr token, st') \<Longrightarrow>
   tempTokens st' = tempTokens st @ [t\<lparr>tt_Token := token\<rparr>]"
  by (auto simp: AddTempToken_def split: sum.splits option.splits)

lemma cleanupIfDue_tempTokens [simp]: "tempTokens (cleanupIfDue env st) = tempTokens st"
  by (simp add: cleanupIfDue_def)

lemma cleanupIfDue_exact:
  assumes "0 \<le> lastTempTokenDeleteTime st" and "lastTempTokenDeleteTime st < 2 ^ 62"
  shows "cleanups (cleanupIfDue env st) =
           (if lastTempTokenDeleteTime st + 600 < now env
            then cleanups st @ [(now env, 3600)] else cleanups st)"
    and "lastTempTokenDeleteTime (cleanupIfDue env st) =
           (if lastTempTokenDeleteTime st + 600 < now env
            then now env else lastTempTokenDeleteTime st)"
proof -
  have "int64 (lastTempTokenDeleteTime st + deleteTempTokensMinInterval)
        = lastTempTokenDeleteTime st + 600"
    using assms by (simp add: deleteTempTokensMinInterval_def int64_id)
  then show "cleanups (cleanupIfDue env st) =
           (if lastTempTokenDeleteTime st + 600 < now env
            then cleanups st @ [(now env, 3600)] else cleanups st)"
    and "lastTempTokenDeleteTime (cleanupIfDue env st) =
           (if lastTempTokenDeleteTime st + 600 < now env
            then now env else lastTempTokenDeleteTime st)"
    by (simp_all add: cleanupIfDue_def)
qed

lemma cleanupIfDue_inv:
  assumes "throttleInv st" and "0 \<le> now env" and "now env < 2 ^ 62"
  shows "throttleInv (cleanupIfDue env st)"
proof -
  from assms(1) have r: "0 \<le> lastTempTokenDeleteTime st" "lastTempTokenDeleteTime st < 2 ^ 62"
    by (simp_all add: throttleInv_def)
  show ?thesis
  proof (cases "lastTempTokenDeleteTime st + 600 < now env")
    case False
    then show ?thesis
      using assms(1) cleanupIfDue_exact [OF r, of env] by (simp add: throttleInv_def)
  next
    case True
    have le: "list_all (\<lambda>p. fst p \<le> now env) (cleanups st)"
      using assms(1) True by (auto simp: throttleInv_def list_all_iff)
    have lt: "\<forall>a\<in>set (cleanups st). fst a + 600 < now env"
      using assms(1) True by (auto simp: throttleInv_def list_all_iff)
    show ?thesis
      using assms True cleanupIfDue_exact [OF r, of env] le lt
      by (simp add: throttleInv_def sorted_wrt_append)
  qed
qed

lemma GenerateTempToken_fields:
  "tti_Purpose t \<noteq> [] \<Longrightarrow>
   cleanups (snd (GenerateTempToken env st (Some t))) = cleanups (cleanupIfDue env st) \<and>
   lastTempTokenDeleteTime (snd (GenerateTempToken env st (Some t))) =
     lastTempTokenDeleteTime (cleanupIfDue env st)"
  by (simp add: GenerateTempToken_def Let_def)

lemma GenerateTempToken_rejected:
  "req = None \<or> (\<exists>t. req = Some t \<and> tti_Purpose t = []) \<Longrightarrow>
   GenerateTempToken env st req = (Inl (Status InvalidArgument ''missing argument''), st)"
  by (auto simp: GenerateTempToken_def)

lemma GetOrCreateTemptoken_fields:
  "tti_Purpose t \<noteq> [] \<Longrightarrow> tti_UserId t \<noteq> [] \<Longrightarrow> tti_InstanceId t \<noteq> [] \<Longrightarrow>
   cleanups (snd (GetOrCreateTemptoken env st (Some t))) = cleanups (cleanupIfDue env st) \<and>
   lastTempTokenDeleteTime (snd (GetOrCreateTemptoken env st (Some t))) =
     lastTempTokenDeleteTime (cleanupIfDue env st)"
  by (simp add: GetOrCreateTemptoken_def Let_def split: sum.splits list.splits)

lemma GetOrCreateTemptoken_rejected:
  "req = None \<or> (\<exists>t. req = Some t \<and> (tti_Purpose t = [] \<or> tti_UserId t = [] \<or> tti_InstanceId t = [])) \<Longrightarrow>
   GetOrCreateTemptoken env st req = (Inl (Status InvalidArgument ''missing argument''), st)"
  by (auto simp: GetOrCreateTemptoken_def)

lemma step_fields:
  "(cleanups (tempTokenStep st c) = cleanups st \<and>
    lastTempTokenDeleteTime (tempTokenStep st c) = lastTempTokenDeleteTime st) \<or>
   (cleanups (tempTokenStep st c) = cleanups (cleanupIfDue (callEnv c) st) \<and>
    lastTempTokenDeleteTime (tempTokenStep st c) =
      lastTempTokenDeleteTime (cleanupIfDue (callEnv c) st))"
proof (cases c)
  case (CallGenerateTempToken env req)
  show ?thesis
  proof (cases "req = None \<or> (\<exists>t. req = Some t \<and> tti_Purpose t = [])")
    case True
    from GenerateTempToken_rejected [OF this] CallGenerateTempToken show ?thesis by simp
  next
    case False
    then obtain t where "req = Some t" "tti_Purpose t \<noteq> []" by auto
    with GenerateTempToken_fields [of t env st] CallGenerateTempToken show ?thesis by simp
  qed
next
  case (CallGetOrCreateTemptoken env req)
  show ?thesis
  proof (cases "req = None \<or> (\<exists>t. req = Some t \<and> (tti_Purpose t = [] \<or> tti_UserId t = [] \<or> tti_InstanceId t = []))")
    case True
    from GetOrCreateTemptoken_rejected [OF this] CallGetOrCreateTemptoken show ?thesis by simp
  next
    case False
    then obtain t where "req = Some t" "tti_Purpose t \<noteq> []" "tti_UserId t \<noteq> []"
        "tti_InstanceId t \<noteq> []" by auto
    with GetOrCreateTemptoken_fields [of t env st] CallGetOrCreateTemptoken show ?thesis by simp
  qed
qed

lemma throttleInv_fields:
  "cleanups st' = cleanups st \<Longrightarrow> lastTempTokenDeleteTime st' = lastTempTokenDeleteTime st \<Longrightarrow>
   throttleInv st' = throttleInv st"
  by (simp add: throttleInv_def)

lemma step_inv:
  assumes "throttleInv st" and "0 \<le> now (callEnv c)" and "now (callEnv c) < 2 ^ 62"
  shows "throttleInv (tempTokenStep st c)"
proof -
  from step_fields [of st c] show ?thesis
  proof
    assume "cleanups (tempTokenStep st c) = cleanups st \<and>
      lastTempTokenDeleteTime (tempTokenStep st c) = lastTempTokenDeleteTime st"
    then have "throttleInv (tempTokenStep st c) = throttleInv st"
      by (intro throttleInv_fields) simp_all
    with assms(1) show ?thesis by simp
  next
    assume "cleanups (tempTokenStep st c) = cleanups (cleanupIfDue (callEnv c) st) \<and>
      lastTempTokenDeleteTime (tempTokenStep st c) =
        lastTempTokenDeleteTime (cleanupIfDue (callEnv c) st)"
    then have "throttleInv (tempTokenStep st c) = throttleInv (cleanupIfDue (callEnv c) st)"
      by (intro throttleInv_fields) simp_all
    with cleanupIfDue_inv [OF assms] show ?thesis by simp
  qed
qed

lemma run_inv:
  "throttleInv st \<Longrightarrow> \<forall>c\<in>set calls. 0 \<le> now (callEnv c) \<and> now (callEnv c) < 2 ^ 62 \<Longrightarrow>
   throttleInv (runTempTokenCalls st calls)"
proof (induction calls arbitrary: st)
  case Nil
  then show ?case by simp
next
  case (Cons c calls)
  from Cons.prems have "throttleInv (tempTokenStep st c)"
    by (intro step_inv) simp_all
  with Cons show ?case by simp
qed

text \<open>
  Claim C9: across any sequence of \<open>GenerateTempToken\<close> and \<open>GetOrCreateTemptoken\<close>
  calls, starting with the package variable at 0 and clock readings that are Unix
  seconds, the clean-up of expired temp tokens (grace 3600 seconds) is started by a call
  only when more than 600 seconds have passed since the last start: the start times are
  increasing and any two differ by more than 600 seconds. A call that passes the
  argument check starts the clean-up, and records its own time, exactly when the
  recorded time plus 600 is less than its clock reading.
\<close>

theorem cleanup_throttle:
  assumes "lastTempTokenDeleteTime st = 0" and "cleanups st = []"
      and "\<forall>c\<in>set calls. 0 \<le> now (callEnv c) \<and> now (callEnv c) < 2 ^ 62"
      and "0 \<le> lastTempTokenDeleteTime s" and "lastTempTokenDeleteTime s < 2 ^ 62"
  shows "sorted_wrt (\<lambda>a b. a + 600 < b) (map fst (cleanups (runTempTokenCalls st calls)))
       \<and> list_all (\<lambda>p. snd p = 3600) (cleanups (runTempTokenCalls st calls))
       \<and> (tti_Purpose t \<noteq> [] \<longrightarrow>
            cleanups (snd (GenerateTempToken env s (Some t))) =
              (if lastTempTokenDeleteTime s + 600 < now env
               then cleanups s @ [(now env, 3600)] else cleanups s) \<and>
            lastTempTokenDeleteTime (snd (GenerateTempToken env s (Some t))) =
              (if lastTempTokenDeleteTime s + 600 < now env
               then now env else lastTempTokenDeleteTime s))
       \<and> (tti_Purpose t \<noteq> [] \<and> tti_UserId t \<noteq> [] \<and> tti_InstanceId t \<noteq> [] \<longrightarrow>
            cleanups (snd (GetOrCreateTemptoken env s (Some t))) =
              (if lastTempTokenDeleteTime s + 600 < now env
               then cleanups s @ [(now env, 3600)] else cleanups s) \<and>
            lastTempTokenDeleteTime (snd (GetOrCreateTemptoken env s (Some t))) =
              (if lastTempTokenDeleteTime s + 600 < now env
               then now env else lastTempTokenDeleteTime s))"
proof -
  have "throttleInv st" using assms(1,2) by (simp add: throttleInv_def)
  from run_inv [OF this assms(3)]
  have a: "sorted_wrt (\<lambda>a b. a + 600 < b) (map fst (cleanups (runTempTokenCalls st calls)))
       \<and> list_all (\<lambda>p. snd p = 3600) (cleanups (runTempTokenCalls st calls))"
    by (simp add: throttleInv_def)
  note ex = cleanupIfDue_exact [OF assms(4,5), of env]
  have b: "tti_Purpose t \<noteq> [] \<longrightarrow>
            cleanups (snd (GenerateTempToken env s (Some t))) =
              (if lastTempTokenDeleteTime s + 600 < now env
               then cleanups s @ [(now env, 3600)] else cleanups s) \<and>
            lastTempTokenDeleteTime (snd (GenerateTempToken env s (Some t))) =
              (if lastTempTokenDeleteTime s + 600 < now env
               then now env else lastTempTokenDeleteTime s)"
    using GenerateTempToken_fields [of t env s] ex by simp
  have c: "tti_Purpose t \<noteq> [] \<and> tti_UserId t \<noteq> [] \<and> tti_InstanceId t \<noteq> [] \<longrightarrow>
            cleanups (snd (GetOrCreateTemptoken env s (Some t))) =
              (if lastTempTokenDeleteTime s + 600 < now env
               then cleanups s @ [(now env, 3600)] else cleanups s) \<and>
            lastTempTokenDeleteTime (snd (GetOrCreateTemptoken env s (Some t))) =
              (if lastTempTokenDeleteTime s + 600 < now env
               then now env else lastTempTokenDeleteTime s)"
    using GetOrCreateTemptoken_fields [of t env s] ex by simp
  from a b c show ?thesis by blast
qed

lemma now_envAt [simp]: "now (envAt t) = t"
  by (simp add: envAt_def)

lemma run_calls3: "cleanups (runTempTokenCalls state1 calls3) = [(1000, 3600), (1601, 3600)]"
proof -
  have l0: "lastTempTokenDeleteTime state1 = 0" "cleanups state1 = []"
    by (simp_all add: state1_def)
  have p0: "tti_Purpose tokenReq0 \<noteq> []" "tti_UserId tokenReq0 \<noteq> []" "tti_InstanceId tokenReq0 \<noteq> []"
    by (simp_all add: tokenReq0_def)
  have p7: "tti_Purpose tokenReq77 \<noteq> []" "tti_UserId tokenReq77 \<noteq> []" "tti_InstanceId tokenReq77 \<noteq> []"
    by (simp_all add: tokenReq77_def)
  let ?s1 = "snd (GenerateTempToken (envAt 1000) state1 (Some tokenReq0))"
  have s1: "cleanups ?s1 = [(1000, 3600)]" "lastTempTokenDeleteTime ?s1 = 1000"
    using GenerateTempToken_fields [OF p0(1), of "envAt 1000" state1]
          cleanupIfDue_exact [of state1 "envAt 1000"] l0 by simp_all
  let ?s2 = "snd (GetOrCreateTemptoken (envAt 1200) ?s1 (Some tokenReq0))"
  have s2: "cleanups ?s2 = [(1000, 3600)]" "lastTempTokenDeleteTime ?s2 = 1000"
    using GetOrCreateTemptoken_fields [OF p0, of "envAt 1200" ?s1]
          cleanupIfDue_exact [of ?s1 "envAt 1200"] s1 by simp_all
  let ?s3 = "snd (GenerateTempToken (envAt 1600) ?s2 (Some tokenReq77))"
  have s3: "cleanups ?s3 = [(1000, 3600)]" "lastTempTokenDeleteTime ?s3 = 1000"
    using GenerateTempToken_fields [OF p7(1), of "envAt 1600" ?s2]
          cleanupIfDue_exact [of ?s2 "envAt 1600"] s2 by simp_all
  let ?s4 = "snd (GetOrCreateTemptoken (envAt 1601) ?s3 (Some tokenReq77))"
  have s4: "cleanups ?s4 = [(1000, 3600), (1601, 3600)]"
    using GetOrCreateTemptoken_fields [OF p7, of "envAt 1601" ?s3]
          cleanupIfDue_exact [of ?s3 "envAt 1601"] s3 by simp_all
  show ?thesis
    by (simp add: calls3_def s4)
qed

theorem cleanup_throttle_witness:
  "lastTempTokenDeleteTime state1 = 0 \<and> cleanups state1 = [] \<and>
   list_all (\<lambda>c. 0 \<le> now (callEnv c) \<and> now (callEnv c) < 2 ^ 62) calls3 \<and>
   map (\<lambda>c. now (callEnv c)) calls3 = [1000, 1200, 1600, 1601] \<and>
   cleanups (runTempTokenCalls state1 calls3) = [(1000, 3600), (1601, 3600)] \<and>
   sorted_wrt (\<lambda>a b. a + 600 < b) (map fst (cleanups (runTempTokenCalls state1 calls3)))"
proof -
  have l0: "lastTempTokenDeleteTime state1 = 0" "cleanups state1 = []"
    by (simp_all add: state1_def)
  have r: "\<forall>c\<in>set calls3. 0 \<le> now (callEnv c) \<and> now (callEnv c) < 2 ^ 62"
    by (simp add: calls3_def)
  have r0: "0 \<le> lastTempTokenDeleteTime state1" "lastTempTokenDeleteTime state1 < 2 ^ 62"
    by (simp_all add: l0)
  note c = cleanup_throttle [OF l0 r r0, THEN conjunct1]
  have m: "map (\<lambda>c. now (callEnv c)) calls3 = [1000, 1200, 1600, 1601]"
    by (simp add: calls3_def)
  show ?thesis
    using l0 r c m run_calls3 by (simp add: list_all_iff)
qed


lemma withDefaultExpiration_fields [simp]:
  "tt_UserID (withDefaultExpiration env t) = tt_UserID t"
  "tt_InstanceID (withDefaultExpiration env t) = tt_InstanceID t"
  "tt_Purpose (withDefaultExpiration env t) = tt_Purpose t"
  "tt_Info (withDefaultExpiration env t) = tt_Info t"
  "tt_Expiration (withDefaultExpiration env t) =
     (if tt_Expiration t = 0 then now env + 864000 else tt_Expiration t)"
  unfolding withDefaultExpiration_def GetExpirationTime_def Hour_def Minute_def Second_def
  by simp_all







section \<open>Properties of the account management endpoints\<close>

lemma GetUserByID_find:
  "GetUserByID env st i uid =
     (case fault env GetUserByID_call of
        Some e \<Rightarrow> Inl e
      | None \<Rightarrow> (case find (\<lambda>u. ID u = uid) (users st i) of
                   None \<Rightarrow> Inl ''mongo: no documents in result''
                 | Some u \<Rightarrow> Inr u))"
  by (simp add: GetUserByID_def userMatches_id_fun split: option.splits)

lemma UpdateUser_find:
  "UpdateUser env st i u =
     (case fault env UpdateUser_call of
        Some e \<Rightarrow> (Inl e, st)
      | None \<Rightarrow> (case find (\<lambda>x. ID x = ID u) (users st i) of
                   None \<Rightarrow> (Inl ''mongo: no documents in result'', st)
                 | Some old \<Rightarrow>
                     (Inr (u\<lparr>Timestamps := (Timestamps u)\<lparr>UpdatedAt := now env\<rparr>\<rparr>),
                      st\<lparr>users := (users st)(i :=
                           updateFirst (\<lambda>x. ID x = ID u)
                             (\<lambda>_. u\<lparr>Timestamps := (Timestamps u)\<lparr>UpdatedAt := now env\<rparr>\<rparr>)
                             (users st i))\<rparr>)))"
  by (simp add: UpdateUser_def updateUserInDB_def Let_def userMatches_id_fun setUsers_def
        split: option.splits)

lemma DeleteUser_find:
  "DeleteUser env st i uid =
     (case fault env DeleteUser_call of
        Some e \<Rightarrow> (Some e, st)
      | None \<Rightarrow> (case find (\<lambda>x. ID x = uid) (users st i) of
                   None \<Rightarrow> (Some ''no user found with the given id'', st)
                 | Some u \<Rightarrow>
                     (None, st\<lparr>users := (users st)(i :=
                              deleteFirst (\<lambda>x. ID x = uid) (users st i))\<rparr>)))"
  by (simp add: DeleteUser_def Let_def userMatches_id_fun setUsers_def matchedCount_def
        split: option.splits)

lemma deleteFirst_distinct:
  "distinct (map ID us) \<Longrightarrow> deleteFirst (\<lambda>x. ID x = i) us = filter (\<lambda>x. ID x \<noteq> i) us"
proof (induction us)
  case Nil
  then show ?case by simp
next
  case (Cons a us)
  show ?case
  proof (cases "ID a = i")
    case True
    have "ID a \<notin> ID ` set us" using Cons.prems by simp
    with True have "\<forall>x\<in>set us. ID x \<noteq> i" by blast
    then have "filter (\<lambda>x. ID x \<noteq> i) us = us" by simp
    with True show ?thesis by simp
  next
    case False
    with Cons show ?thesis by simp
  qed
qed

lemma IsTokenEmpty_Some [simp]:
  "IsTokenEmpty (Some tok) \<longleftrightarrow> ti_Id tok = [] \<or> ti_InstanceId tok = []"
  by (simp add: IsTokenEmpty_def)

lemma DeleteAccount_success:
  assumes succ: "DeleteAccount env st (Some r) = (Inr resp, st')"
      and tok: "ur_Token r = Some tok"
  shows "ti_Id tok = ur_UserId r \<and> resp = ServiceStatus_NORMAL ''user deleted'' \<and>
         (\<exists>u. find (\<lambda>x. ID x = ur_UserId r) (users st (ti_InstanceId tok)) = Some u \<and>
           st' = st\<lparr>users := (users st)(ti_InstanceId tok :=
                        deleteFirst (\<lambda>x. ID x = ur_UserId r) (users st (ti_InstanceId tok))),
                    tempTokens :=
                      (if fault env DeleteAllTempTokenForUser_call = None
                       then filter (\<lambda>t. \<not> (tt_InstanceID t = ti_InstanceId tok \<and>
                                            tt_UserID t = ur_UserId r)) (tempTokens st)
                       else tempTokens st),
                    emails :=
                      (if fault env SendInstantEmail_call = None
                       then emails st @ [\<lparr>em_InstanceID = ti_InstanceId tok,
                                           em_To = [AccountID (Account u)],
                                           em_MessageType = ''EMAIL_TYPE_ACCOUNT_DELETED''\<rparr>]
                       else emails st),
                    logEvents := logEvents st @
                      [\<lparr>le_InstanceID = ti_InstanceId tok, le_UserID = ur_UserId r,
                        le_Type = LOG, le_Event = ''LOG_EVENT_ACCOUNT_DELETED'',
                        le_Msg = AccountID (Account u)\<rparr>]\<rparr>)"
proof -
  from succ tok have ne: "ti_Id tok \<noteq> []" "ti_InstanceId tok \<noteq> []" "ur_UserId r \<noteq> []"
    and eq: "ti_Id tok = ur_UserId r"
    by (auto simp: DeleteAccount_def split: if_splits)
  from succ tok ne eq obtain u where
    g: "GetUserByID env st (ti_InstanceId tok) (ur_UserId r) = Inr u"
    by (cases "GetUserByID env st (ti_InstanceId tok) (ur_UserId r)")
       (auto simp: DeleteAccount_def)
  then have nf: "fault env GetUserByID_call = None"
    and f: "find (\<lambda>x. ID x = ur_UserId r) (users st (ti_InstanceId tok)) = Some u"
    by (auto simp: GetUserByID_find split: option.splits)
  let ?m = "\<lparr>em_InstanceID = ti_InstanceId tok, em_To = [AccountID (Account u)],
             em_MessageType = ''EMAIL_TYPE_ACCOUNT_DELETED''\<rparr>"
  let ?st1 = "snd (SendInstantEmail env st ?m)"
  have u1: "users ?st1 = users st" and t1: "tempTokens ?st1 = tempTokens st"
    and l1: "logEvents ?st1 = logEvents st"
    by (simp_all add: SendInstantEmail_def split: option.splits)
  have f1: "find (\<lambda>x. ID x = ur_UserId r) (users ?st1 (ti_InstanceId tok)) = Some u"
    using f u1 by simp
  from succ tok ne eq g have nd: "fault env DeleteUser_call = None"
    by (cases "fault env DeleteUser_call")
       (auto simp: DeleteAccount_def Let_def DeleteUser_find)
  show ?thesis
    using succ tok ne eq g nd f1 u1 t1 l1
    by (cases "fault env DeleteAllTempTokenForUser_call"; cases "fault env SendInstantEmail_call")
       (auto simp: DeleteAccount_def Let_def DeleteUser_find DeleteAllTempTokenForUser_def
          SaveLogEvent_def SendInstantEmail_def tempTokenFor_def f)
qed

lemma DeleteAccount_run:
  assumes tok: "ur_Token r = Some tok"
      and ne: "ti_Id tok \<noteq> []" "ti_InstanceId tok \<noteq> []"
      and eq: "ti_Id tok = ur_UserId r"
      and nf: "fault env GetUserByID_call = None" "fault env DeleteUser_call = None"
      and f: "find (\<lambda>x. ID x = ur_UserId r) (users st (ti_InstanceId tok)) = Some u"
  shows "fst (DeleteAccount env st (Some r)) = Inr (ServiceStatus_NORMAL ''user deleted'')"
proof -
  let ?m = "\<lparr>em_InstanceID = ti_InstanceId tok, em_To = [AccountID (Account u)],
             em_MessageType = ''EMAIL_TYPE_ACCOUNT_DELETED''\<rparr>"
  have u1: "users (snd (SendInstantEmail env st ?m)) = users st"
    by (simp add: SendInstantEmail_def split: option.splits)
  show ?thesis
    using tok ne eq nf f u1
    by (simp add: DeleteAccount_def Let_def GetUserByID_find DeleteUser_find)
qed

text \<open>
  Claim C7, as amended: after a successful \<open>DeleteAccount\<close> call for user \<open>u\<close> (the
  caller's token id equals \<open>u\<close>) on an instance whose user ids are unique, no user record
  with id \<open>u\<close> is left in the instance's user store, and the other records are as before.
  If the purge of the temp tokens did not fail, no temp token with \<open>userId = u\<close> and the
  caller's instance is left, for any purpose, and the other temp tokens are as before.
  If the purge failed, the call succeeds all the same and the temp-token store is
  unchanged.
\<close>

theorem DeleteAccount_removes_user_and_tokens:
  assumes succ: "DeleteAccount env st (Some r) = (Inr resp, st')"
      and tok: "ur_Token r = Some tok"
      and dist: "distinct (map ID (users st (ti_InstanceId tok)))"
  shows "ti_Id tok = ur_UserId r
       \<and> users st' (ti_InstanceId tok) =
           filter (\<lambda>x. ID x \<noteq> ur_UserId r) (users st (ti_InstanceId tok))
       \<and> (\<forall>x\<in>set (users st' (ti_InstanceId tok)). ID x \<noteq> ur_UserId r)
       \<and> (\<forall>i. i \<noteq> ti_InstanceId tok \<longrightarrow> users st' i = users st i)
       \<and> (fault env DeleteAllTempTokenForUser_call = None \<longrightarrow>
            tempTokens st' =
              filter (\<lambda>t. \<not> (tt_InstanceID t = ti_InstanceId tok \<and> tt_UserID t = ur_UserId r))
                (tempTokens st)
            \<and> (\<forall>t\<in>set (tempTokens st').
                  \<not> (tt_InstanceID t = ti_InstanceId tok \<and> tt_UserID t = ur_UserId r)))
       \<and> (fault env DeleteAllTempTokenForUser_call \<noteq> None \<longrightarrow> tempTokens st' = tempTokens st)"
proof -
  note S = DeleteAccount_success [OF succ tok]
  from S have eq: "ti_Id tok = ur_UserId r" by simp
  from S have U: "users st' = (users st)(ti_InstanceId tok :=
                        deleteFirst (\<lambda>x. ID x = ur_UserId r) (users st (ti_InstanceId tok)))"
    by auto
  from S have T: "tempTokens st' =
                      (if fault env DeleteAllTempTokenForUser_call = None
                       then filter (\<lambda>t. \<not> (tt_InstanceID t = ti_InstanceId tok \<and>
                                            tt_UserID t = ur_UserId r)) (tempTokens st)
                       else tempTokens st)"
    by auto
  have us: "users st' (ti_InstanceId tok) =
           filter (\<lambda>x. ID x \<noteq> ur_UserId r) (users st (ti_InstanceId tok))"
    by (simp add: U deleteFirst_distinct [OF dist])
  have others: "\<forall>i. i \<noteq> ti_InstanceId tok \<longrightarrow> users st' i = users st i"
    by (simp add: U)
  have c3: "\<forall>x\<in>set (users st' (ti_InstanceId tok)). ID x \<noteq> ur_UserId r"
    by (simp add: us)
  have t1: "fault env DeleteAllTempTokenForUser_call = None \<longrightarrow>
            tempTokens st' =
              filter (\<lambda>t. \<not> (tt_InstanceID t = ti_InstanceId tok \<and> tt_UserID t = ur_UserId r))
                (tempTokens st)
            \<and> (\<forall>t\<in>set (tempTokens st').
                  \<not> (tt_InstanceID t = ti_InstanceId tok \<and> tt_UserID t = ur_UserId r))"
    by (simp add: T)
  have t2: "fault env DeleteAllTempTokenForUser_call \<noteq> None \<longrightarrow> tempTokens st' = tempTokens st"
    by (simp add: T)
  show ?thesis
    by (intro conjI) (fact eq, fact us, fact c3, fact others, fact t1, fact t2)
qed

lemma users_state2: "users state2 ''inst1'' = [user1, user2]"
  by (simp add: state2_def)

lemma ids_12: "ID user1 = ''u1''" "ID user2 = ''u2''"
  by (simp_all add: user1_def user2_def)

lemma deleteRequest_fields:
  "ur_Token deleteRequest = Some token1" "ur_UserId deleteRequest = ''u1''"
  "ti_Id token1 = ''u1''" "ti_InstanceId token1 = ''inst1''"
  by (simp_all add: deleteRequest_def token1_def)

theorem DeleteAccount_removes_user_and_tokens_witness:
  "fst (DeleteAccount env0 state2 (Some deleteRequest)) = Inr (ServiceStatus_NORMAL ''user deleted'')
   \<and> ur_Token deleteRequest = Some token1 \<and> ur_UserId deleteRequest = ''u1''
   \<and> ti_InstanceId token1 = ''inst1''
   \<and> map ID (users state2 ''inst1'') = [''u1'', ''u2'']
   \<and> map tt_UserID (tempTokens state2) = [''u1'', ''u2'', ''u1'']
   \<and> fault env0 DeleteAllTempTokenForUser_call = None
   \<and> map ID (users (snd (DeleteAccount env0 state2 (Some deleteRequest))) ''inst1'') = [''u2'']
   \<and> map tt_UserID (tempTokens (snd (DeleteAccount env0 state2 (Some deleteRequest)))) = [''u2'']"
proof -
  have nf: "fault env0 GetUserByID_call = None" "fault env0 DeleteUser_call = None"
    "fault env0 DeleteAllTempTokenForUser_call = None"
    by (simp_all add: env0_def)
  have f: "find (\<lambda>x. ID x = ur_UserId deleteRequest) (users state2 (ti_InstanceId token1)) = Some user1"
    by (simp add: deleteRequest_fields users_state2 ids_12)
  have run: "fst (DeleteAccount env0 state2 (Some deleteRequest)) = Inr (ServiceStatus_NORMAL ''user deleted'')"
    by (rule DeleteAccount_run [OF deleteRequest_fields(1) _ _ _ nf(1,2) f])
       (simp_all add: deleteRequest_fields)
  then have succ: "DeleteAccount env0 state2 (Some deleteRequest) =
      (Inr (ServiceStatus_NORMAL ''user deleted''), snd (DeleteAccount env0 state2 (Some deleteRequest)))"
    by (metis prod.collapse)
  have dist: "distinct (map ID (users state2 (ti_InstanceId token1)))"
    by (simp add: deleteRequest_fields users_state2 ids_12)
  have tt: "map tt_UserID (tempTokens state2) = [''u1'', ''u2'', ''u1'']"
    "map tt_InstanceID (tempTokens state2) = [''inst1'', ''inst1'', ''inst1'']"
    "tempTokens state2 = [tempToken1, tempToken2, tempToken3]"
    by (simp_all add: state2_def tempToken1_def tempToken2_def tempToken3_def)
  have tf: "tt_UserID tempToken1 = ''u1''" "tt_UserID tempToken2 = ''u2''" "tt_UserID tempToken3 = ''u1''"
    "tt_InstanceID tempToken1 = ''inst1''" "tt_InstanceID tempToken2 = ''inst1''"
    "tt_InstanceID tempToken3 = ''inst1''"
    by (simp_all add: tempToken1_def tempToken2_def tempToken3_def)
  note c = DeleteAccount_removes_user_and_tokens [OF succ deleteRequest_fields(1) dist]
  have r1: "map ID (users (snd (DeleteAccount env0 state2 (Some deleteRequest))) ''inst1'') = [''u2'']"
    using c [THEN conjunct2, THEN conjunct1]
    by (simp add: deleteRequest_fields users_state2 ids_12)
  have r2: "map tt_UserID (tempTokens (snd (DeleteAccount env0 state2 (Some deleteRequest)))) = [''u2'']"
    using c [THEN conjunct2, THEN conjunct2, THEN conjunct2, THEN conjunct2, THEN conjunct1,
             THEN mp, OF nf(3), THEN conjunct1]
    by (simp add: deleteRequest_fields tt(3) tf)
  show ?thesis
    using run deleteRequest_fields(1,2,4) tt(1) nf(3) r1 r2
    by (simp add: users_state2 ids_12)
qed

text \<open>
  Claim C7 as stated fails: the error of \<open>DeleteAllTempTokenForUser\<close> is logged and not
  returned. With a purge that fails, \<open>DeleteAccount\<close> for user \<open>u1\<close> answers
  "user deleted", the user record is gone, and both temp tokens of \<open>u1\<close> are still stored.
\<close>

theorem DeleteAccount_purge_failure_counterexample:
  "fst (DeleteAccount envPurgeFails state2 (Some deleteRequest)) =
     Inr (ServiceStatus_NORMAL ''user deleted'')
   \<and> ur_UserId deleteRequest = ''u1''
   \<and> map ID (users (snd (DeleteAccount envPurgeFails state2 (Some deleteRequest))) ''inst1'')
       = [''u2'']
   \<and> map tt_UserID (tempTokens (snd (DeleteAccount envPurgeFails state2 (Some deleteRequest))))
       = [''u1'', ''u2'', ''u1'']"
proof -
  have nf: "fault envPurgeFails GetUserByID_call = None" "fault envPurgeFails DeleteUser_call = None"
    "fault envPurgeFails DeleteAllTempTokenForUser_call \<noteq> None"
    by (simp_all add: envPurgeFails_def)
  have f: "find (\<lambda>x. ID x = ur_UserId deleteRequest) (users state2 (ti_InstanceId token1)) = Some user1"
    by (simp add: deleteRequest_fields users_state2 ids_12)
  have run: "fst (DeleteAccount envPurgeFails state2 (Some deleteRequest)) =
      Inr (ServiceStatus_NORMAL ''user deleted'')"
    by (rule DeleteAccount_run [OF deleteRequest_fields(1) _ _ _ nf(1,2) f])
       (simp_all add: deleteRequest_fields)
  then have succ: "DeleteAccount envPurgeFails state2 (Some deleteRequest) =
      (Inr (ServiceStatus_NORMAL ''user deleted''),
       snd (DeleteAccount envPurgeFails state2 (Some deleteRequest)))"
    by (metis prod.collapse)
  from DeleteAccount_success [OF succ deleteRequest_fields(1)] nf(3)
  have r: "users (snd (DeleteAccount envPurgeFails state2 (Some deleteRequest))) ''inst1''
             = deleteFirst (\<lambda>x. ID x = ''u1'') (users state2 ''inst1'')"
    "tempTokens (snd (DeleteAccount envPurgeFails state2 (Some deleteRequest))) = tempTokens state2"
    by (auto simp: deleteRequest_fields)
  have tt: "map tt_UserID (tempTokens state2) = [''u1'', ''u2'', ''u1'']"
    by (simp add: state2_def tempToken1_def tempToken2_def tempToken3_def)
  show ?thesis
    using run by (simp add: r tt deleteRequest_fields users_state2 ids_12)
qed

lemma find_ID: "find (\<lambda>x. ID x = i) us = Some u \<Longrightarrow> ID u = i"
  by (auto simp: find_Some_iff)

lemma SaveProfile_add:
  assumes tok: "pr_Token r = Some tok" and prof: "pr_Profile r = Some p"
      and ne: "ti_Id tok \<noteq> []" "ti_InstanceId tok \<noteq> []"
      and add: "p_ID p = []"
      and nf: "fault env GetUserByID_call = None" "fault env UpdateUser_call = None"
      and f: "find (\<lambda>x. ID x = ti_Id tok) (users st (ti_InstanceId tok)) = Some u"
      and len: "length (Profiles u) \<le> n"
  shows "SaveProfile n env st (Some r) =
     (Inr (u\<lparr>Profiles := Profiles u @
               [p\<lparr>p_ID := newObjectID env, p_CreatedAt := now env,
                  p_MainProfile := (Profiles u = [])\<rparr>],
             Timestamps := (Timestamps u)\<lparr>UpdatedAt := now env\<rparr>\<rparr>),
      st\<lparr>users := (users st)(ti_InstanceId tok :=
             updateFirst (\<lambda>x. ID x = ti_Id tok)
               (\<lambda>_. u\<lparr>Profiles := Profiles u @
                         [p\<lparr>p_ID := newObjectID env, p_CreatedAt := now env,
                            p_MainProfile := (Profiles u = [])\<rparr>],
                       Timestamps := (Timestamps u)\<lparr>UpdatedAt := now env\<rparr>\<rparr>)
               (users st (ti_InstanceId tok))),
         logEvents := logEvents st @
           [\<lparr>le_InstanceID = ti_InstanceId tok, le_UserID = ti_Id tok, le_Type = LOG,
             le_Event = ''LOG_EVENT_PROFILE_SAVED'', le_Msg = p_Alias p\<rparr>]\<rparr>)"
proof -
  have idu: "ID u = ti_Id tok" using f by (rule find_ID)
  have g: "GetUserByID env st (ti_InstanceId tok) (ti_Id tok) = Inr u"
    using nf(1) f by (simp add: GetUserByID_find)
  have ida: "ID (AddProfile env u p) = ti_Id tok"
    by (simp add: AddProfile_def idu)
  have upd: "UpdateUser env st (ti_InstanceId tok) (AddProfile env u p) =
      (Inr ((AddProfile env u p)\<lparr>Timestamps := (Timestamps (AddProfile env u p))\<lparr>UpdatedAt := now env\<rparr>\<rparr>),
       st\<lparr>users := (users st)(ti_InstanceId tok :=
              updateFirst (\<lambda>x. ID x = ti_Id tok)
                (\<lambda>_. (AddProfile env u p)\<lparr>Timestamps := (Timestamps (AddProfile env u p))\<lparr>UpdatedAt := now env\<rparr>\<rparr>)
                (users st (ti_InstanceId tok)))\<rparr>)"
    using nf(2) f by (simp add: UpdateUser_find ida)
  have ap: "(AddProfile env u p)\<lparr>Timestamps := (Timestamps (AddProfile env u p))\<lparr>UpdatedAt := now env\<rparr>\<rparr>
        = u\<lparr>Profiles := Profiles u @
               [p\<lparr>p_ID := newObjectID env, p_CreatedAt := now env,
                  p_MainProfile := (Profiles u = [])\<rparr>],
             Timestamps := (Timestamps u)\<lparr>UpdatedAt := now env\<rparr>\<rparr>"
    by (simp add: AddProfile_def)
  show ?thesis
    using tok prof ne add len g
    by (simp add: SaveProfile_def upd SaveLogEvent_def ap)
qed

text \<open>
  Claim C6: for a user who already holds the maximum allowed number of profiles, a
  \<open>SaveProfile\<close> call with an empty profile id fails with "reached profile limit" and
  leaves the profile list unchanged. The endpoint rejects only when
  \<open>len(user.Profiles) > maximumProfilesAllowed\<close>: with the maximum at 6 and a user holding
  6 profiles, the call succeeds and 7 profiles are stored.
\<close>

theorem SaveProfile_adds_beyond_maximum:
  "length (Profiles user6) = 6 \<and>
   find (\<lambda>x. ID x = ''u1'') (users state6 ''inst1'') = Some user6 \<and>
   (case fst (SaveProfile 6 env0 state6 (Some addRequest)) of
      Inl e \<Rightarrow> 0 | Inr u \<Rightarrow> length (Profiles u)) = 7 \<and>
   map (\<lambda>u. length (Profiles u)) (users (snd (SaveProfile 6 env0 state6 (Some addRequest))) ''inst1'')
     = [7]"
proof -
  have r: "pr_Token addRequest = Some token1"
    "pr_Profile addRequest = Some \<lparr>p_ID = [], p_Alias = ''seventh'', p_AvatarID = [],
       p_ConsentConfirmedAt = 0, p_MainProfile = False, p_CreatedAt = 0\<rparr>"
    by (simp_all add: addRequest_def)
  have t: "ti_Id token1 = ''u1''" "ti_InstanceId token1 = ''inst1''"
    by (simp_all add: token1_def)
  have nf: "fault env0 GetUserByID_call = None" "fault env0 UpdateUser_call = None"
    by (simp_all add: env0_def)
  have us: "users state6 ''inst1'' = [user6]" by (simp add: state6_def)
  have id6: "ID user6 = ''u1''" by (simp add: user6_def user1_def)
  have len: "length (Profiles user6) = 6" by (simp add: user6_def)
  have f: "find (\<lambda>x. ID x = ti_Id token1) (users state6 (ti_InstanceId token1)) = Some user6"
    by (simp add: t us id6)
  note run = SaveProfile_add [OF r(1) r(2) _ _ _ nf f, of 6]
  have "SaveProfile 6 env0 state6 (Some addRequest) = (Inr
      (user6\<lparr>Profiles := Profiles user6 @
               [\<lparr>p_ID = [], p_Alias = ''seventh'', p_AvatarID = [],
                 p_ConsentConfirmedAt = 0, p_MainProfile = False, p_CreatedAt = 0\<rparr>
                \<lparr>p_ID := newObjectID env0, p_CreatedAt := now env0,
                  p_MainProfile := (Profiles user6 = [])\<rparr>],
             Timestamps := (Timestamps user6)\<lparr>UpdatedAt := now env0\<rparr>\<rparr>),
      state6\<lparr>users := (users state6)(ti_InstanceId token1 :=
             updateFirst (\<lambda>x. ID x = ti_Id token1)
               (\<lambda>_. user6\<lparr>Profiles := Profiles user6 @
                         [\<lparr>p_ID = [], p_Alias = ''seventh'', p_AvatarID = [],
                           p_ConsentConfirmedAt = 0, p_MainProfile = False, p_CreatedAt = 0\<rparr>
                          \<lparr>p_ID := newObjectID env0, p_CreatedAt := now env0,
                            p_MainProfile := (Profiles user6 = [])\<rparr>],
                       Timestamps := (Timestamps user6)\<lparr>UpdatedAt := now env0\<rparr>\<rparr>)
               (users state6 (ti_InstanceId token1))),
         logEvents := logEvents state6 @
           [\<lparr>le_InstanceID = ti_InstanceId token1, le_UserID = ti_Id token1, le_Type = LOG,
             le_Event = ''LOG_EVENT_PROFILE_SAVED'',
             le_Msg = p_Alias \<lparr>p_ID = [], p_Alias = ''seventh'', p_AvatarID = [],
                 p_ConsentConfirmedAt = 0, p_MainProfile = False, p_CreatedAt = 0\<rparr>\<rparr>]\<rparr>)"
    by (rule run) (simp_all add: t len)
  then show ?thesis
    using f by (simp add: t us id6 len)
qed

section \<open>Properties of token renewal\<close>

lemma find_updateFirst:
  "find P xs = Some u \<Longrightarrow> P v \<Longrightarrow> find P (updateFirst P (\<lambda>_. v) xs) = Some v"
  by (induction xs) (auto split: if_splits)

lemma ValidateToken_Signed:
  "ValidateToken env (Signed c) =
     (c, \<not> tok_ExpiresAt c < now env, if tok_ExpiresAt c < now env then Some TokenExpired else None)"
  by (simp add: ValidateToken_def)

lemma RenewJWT_run:
  assumes A: "rj_AccessToken r = Signed c" and R: "rj_RefreshToken r \<noteq> []"
      and nf: "fault env GetUserByID_call = None" "fault env GenerateNewToken_call = None"
              "fault env GenerateUniqueTokenString_call = None" "fault env UpdateUser_call = None"
      and f: "find (\<lambda>x. ID x = tok_ID c) (users st (tok_InstanceID c)) = Some u"
      and rin: "rj_RefreshToken r \<in> set (RefreshTokens (Account u))"
  shows "RenewJWT s env st (Some r) =
    (Inr \<lparr>tr_AccessToken = Signed
             \<lparr>tok_ID = tok_ID c, tok_InstanceID = tok_InstanceID c,
              tok_ProfileID = (case find p_MainProfile (Profiles u) of
                                 None \<Rightarrow> [] | Some p \<Rightarrow> p_ID p),
              tok_OtherProfileIDs = map p_ID (filter (\<lambda>p. \<not> p_MainProfile p) (Profiles u)),
              tok_AccountConfirmed = (0 < AccountConfirmedAt (Account u)),
              tok_Payload = \<lparr>pl_roles = pl_roles (tok_Payload c),
                             pl_username = pl_username (tok_Payload c)\<rparr>,
              tok_TempTokenInfos = None,
              tok_IssuedAt = now env,
              tok_ExpiresAt = now env + TokenExpiryInterval s div 1000000000\<rparr>,
           tr_RefreshToken = uniqueToken env,
           tr_AccountConfirmed = (0 < AccountConfirmedAt (Account u)),
           tr_ExpiresIn = int32 (quot (TokenExpiryInterval s) Minute),
           tr_SelectedProfileId = tok_ProfileID c,
           tr_Profiles = Profiles u,
           tr_PreferredLanguage = PreferredLanguage (Account u)\<rparr>,
     st\<lparr>users := (users st)(tok_InstanceID c :=
            updateFirst (\<lambda>x. ID x = tok_ID c)
              (\<lambda>_. u\<lparr>Account := (Account u)\<lparr>RefreshTokens :=
                         drop (length (remove1 (rj_RefreshToken r) (RefreshTokens (Account u))) + 1 - 10)
                           (remove1 (rj_RefreshToken r) (RefreshTokens (Account u))
                            @ [uniqueToken env])\<rparr>,
                      Timestamps := (Timestamps u)\<lparr>LastTokenRefresh := now env,
                                                    UpdatedAt := now env\<rparr>\<rparr>)
              (users st (tok_InstanceID c))),
        logEvents := logEvents st @
          [\<lparr>le_InstanceID = tok_InstanceID c, le_UserID = tok_ID c, le_Type = LOG,
            le_Event = ''LOG_EVENT_TOKEN_REFRESH_SUCCESS'', le_Msg = []\<rparr>]\<rparr>)"
proof -
  let ?rt = "rj_RefreshToken r"
  let ?u3 = "AddRefreshToken
      ((u\<lparr>Account := (Account u)\<lparr>RefreshTokens := remove1 ?rt (RefreshTokens (Account u))\<rparr>\<rparr>)
         \<lparr>Timestamps := (Timestamps u)\<lparr>LastTokenRefresh := now env\<rparr>\<rparr>)
      (uniqueToken env)"
  have idu: "ID u = tok_ID c" using f by (auto simp: find_Some_iff)
  have g: "GetUserByID env st (tok_InstanceID c) (tok_ID c) = Inr u"
    using nf(1) f by (simp add: GetUserByID_find)
  have rm: "RemoveRefreshToken u ?rt =
      Inr (u\<lparr>Account := (Account u)\<lparr>RefreshTokens := remove1 ?rt (RefreshTokens (Account u))\<rparr>\<rparr>)"
    using rin by (simp add: RemoveRefreshToken_def)
  have id3: "ID ?u3 = tok_ID c" by (simp add: AddRefreshToken_def Let_def idu)
  have upd: "UpdateUser env st (tok_InstanceID c) ?u3 =
      (Inr (?u3\<lparr>Timestamps := (Timestamps ?u3)\<lparr>UpdatedAt := now env\<rparr>\<rparr>),
       st\<lparr>users := (users st)(tok_InstanceID c :=
              updateFirst (\<lambda>x. ID x = tok_ID c)
                (\<lambda>_. ?u3\<lparr>Timestamps := (Timestamps ?u3)\<lparr>UpdatedAt := now env\<rparr>\<rparr>)
                (users st (tok_InstanceID c)))\<rparr>)"
    using nf(4) f by (simp add: UpdateUser_find id3)
  have u3: "?u3\<lparr>Timestamps := (Timestamps ?u3)\<lparr>UpdatedAt := now env\<rparr>\<rparr> =
      u\<lparr>Account := (Account u)\<lparr>RefreshTokens :=
                         drop (length (remove1 ?rt (RefreshTokens (Account u))) + 1 - 10)
                           (remove1 ?rt (RefreshTokens (Account u)) @ [uniqueToken env])\<rparr>,
         Timestamps := (Timestamps u)\<lparr>LastTokenRefresh := now env, UpdatedAt := now env\<rparr>\<rparr>"
    by (simp add: AddRefreshToken_def Let_def)
  have gen: "GenerateUniqueTokenString env = Inr (uniqueToken env)"
    using nf(3) by (simp add: GenerateUniqueTokenString_def)
  show ?thesis
    using A R g rm gen nf(2)
    by (simp add: RenewJWT_def ValidateToken_Signed Let_def upd u3 GenerateNewToken_def
          GetMainAndOtherProfiles_def GetRolesFromPayload_def GetUsernameFromPayload_def
          GetExpirationTime_def Second_def SaveLogEvent_def)
qed

lemma RenewJWT_Opaque:
  "rj_AccessToken r = Opaque x \<Longrightarrow> \<exists>e. fst (RenewJWT s env st (Some r)) = Inl e"
  by (simp add: RenewJWT_def ValidateToken_def)

lemma RenewJWT_success:
  assumes succ: "RenewJWT s env st (Some r) = (Inr resp, st')"
  shows "\<exists>c u. rj_AccessToken r = Signed c \<and> rj_RefreshToken r \<noteq> [] \<and>
           fault env GetUserByID_call = None \<and> fault env GenerateNewToken_call = None \<and>
           fault env GenerateUniqueTokenString_call = None \<and> fault env UpdateUser_call = None \<and>
           find (\<lambda>x. ID x = tok_ID c) (users st (tok_InstanceID c)) = Some u \<and>
           rj_RefreshToken r \<in> set (RefreshTokens (Account u))"
proof -
  from succ have R: "rj_RefreshToken r \<noteq> []" and A0: "rj_AccessToken r \<noteq> Opaque []"
    by (auto simp: RenewJWT_def split: if_splits)
  obtain c where A: "rj_AccessToken r = Signed c"
  proof (cases "rj_AccessToken r")
    case (Signed c)
    then show ?thesis by (rule that)
  next
    case (Opaque x)
    from RenewJWT_Opaque [OF this, of s env st] succ show ?thesis by simp
  qed
  have V: "ValidateToken env (Signed c) = (c, False, Some TokenExpired) \<or>
           ValidateToken env (Signed c) = (c, True, None)"
    by (simp add: ValidateToken_def)
  from succ R A V obtain u where g: "GetUserByID env st (tok_InstanceID c) (tok_ID c) = Inr u"
    by (cases "GetUserByID env st (tok_InstanceID c) (tok_ID c)")
       (auto simp: RenewJWT_def)
  then have nf1: "fault env GetUserByID_call = None"
    and f: "find (\<lambda>x. ID x = tok_ID c) (users st (tok_InstanceID c)) = Some u"
    by (auto simp: GetUserByID_find split: option.splits)
  from succ R A V g have rin: "rj_RefreshToken r \<in> set (RefreshTokens (Account u))"
    by (cases "rj_RefreshToken r \<in> set (RefreshTokens (Account u))")
       (auto simp: RenewJWT_def RemoveRefreshToken_def)
  then have rm: "RemoveRefreshToken u (rj_RefreshToken r) =
      Inr (u\<lparr>Account := (Account u)\<lparr>RefreshTokens :=
               remove1 (rj_RefreshToken r) (RefreshTokens (Account u))\<rparr>\<rparr>)"
    by (simp add: RemoveRefreshToken_def)
  from succ R A V g rm have nf2: "fault env GenerateNewToken_call = None"
    by (cases "fault env GenerateNewToken_call")
       (auto simp: RenewJWT_def Let_def GenerateNewToken_def)
  from succ R A V g rm nf2 have nf3: "fault env GenerateUniqueTokenString_call = None"
    by (cases "fault env GenerateUniqueTokenString_call")
       (auto simp: RenewJWT_def Let_def GenerateNewToken_def
          GenerateUniqueTokenString_def)
  from succ R A V g rm nf2 nf3 have nf4: "fault env UpdateUser_call = None"
    by (cases "fault env UpdateUser_call")
       (auto simp: RenewJWT_def Let_def GenerateNewToken_def
          GenerateUniqueTokenString_def UpdateUser_find)
  from A R nf1 nf2 nf3 nf4 f rin show ?thesis by blast
qed

text \<open>
  Claim C2, as amended: after a successful \<open>RenewJWT\<close> call the new access token carries the
  id, instance id, roles and username of the presented token. Its profile id is the id of
  the stored user's main profile and its other profile ids are the ids of the user's
  remaining profiles, whatever the presented token carried; it carries no temp-token
  infos; \<open>accountConfirmed\<close> is read from the stored account, \<open>issuedAt\<close> is the current time
  and \<open>expiresAt\<close> the current time plus the configured interval in seconds. The profile id
  of the presented token is handed back in the response as \<open>selectedProfileId\<close>.
\<close>

theorem RenewJWT_new_token_claims:
  assumes succ: "RenewJWT s env st (Some r) = (Inr resp, st')"
      and A: "rj_AccessToken r = Signed c"
  shows "\<exists>u. find (\<lambda>x. ID x = tok_ID c) (users st (tok_InstanceID c)) = Some u \<and>
           tr_AccessToken resp = Signed
             \<lparr>tok_ID = tok_ID c, tok_InstanceID = tok_InstanceID c,
              tok_ProfileID = (case find p_MainProfile (Profiles u) of
                                 None \<Rightarrow> [] | Some p \<Rightarrow> p_ID p),
              tok_OtherProfileIDs = map p_ID (filter (\<lambda>p. \<not> p_MainProfile p) (Profiles u)),
              tok_AccountConfirmed = (0 < AccountConfirmedAt (Account u)),
              tok_Payload = \<lparr>pl_roles = pl_roles (tok_Payload c),
                             pl_username = pl_username (tok_Payload c)\<rparr>,
              tok_TempTokenInfos = None,
              tok_IssuedAt = now env,
              tok_ExpiresAt = now env + TokenExpiryInterval s div 1000000000\<rparr> \<and>
           tr_SelectedProfileId resp = tok_ProfileID c"
proof -
  from RenewJWT_success [OF succ] A obtain u where
    h: "rj_RefreshToken r \<noteq> []"
       "fault env GetUserByID_call = None" "fault env GenerateNewToken_call = None"
       "fault env GenerateUniqueTokenString_call = None" "fault env UpdateUser_call = None"
       "find (\<lambda>x. ID x = tok_ID c) (users st (tok_InstanceID c)) = Some u"
       "rj_RefreshToken r \<in> set (RefreshTokens (Account u))"
    by auto
  from RenewJWT_run [OF A h, of s] succ
  have "tr_AccessToken resp = Signed
             \<lparr>tok_ID = tok_ID c, tok_InstanceID = tok_InstanceID c,
              tok_ProfileID = (case find p_MainProfile (Profiles u) of
                                 None \<Rightarrow> [] | Some p \<Rightarrow> p_ID p),
              tok_OtherProfileIDs = map p_ID (filter (\<lambda>p. \<not> p_MainProfile p) (Profiles u)),
              tok_AccountConfirmed = (0 < AccountConfirmedAt (Account u)),
              tok_Payload = \<lparr>pl_roles = pl_roles (tok_Payload c),
                             pl_username = pl_username (tok_Payload c)\<rparr>,
              tok_TempTokenInfos = None,
              tok_IssuedAt = now env,
              tok_ExpiresAt = now env + TokenExpiryInterval s div 1000000000\<rparr>"
    and "tr_SelectedProfileId resp = tok_ProfileID c"
    by auto
  with h(6) show ?thesis by blast
qed

lemma RenewJWT_wrong_refresh:
  assumes A: "rj_AccessToken r = Signed c" and R: "rj_RefreshToken r \<noteq> []"
      and nf: "fault env GetUserByID_call = None"
      and f: "find (\<lambda>x. ID x = tok_ID c) (users st (tok_InstanceID c)) = Some u"
      and notin: "rj_RefreshToken r \<notin> set (RefreshTokens (Account u))"
  shows "RenewJWT s env st (Some r) =
     (Inl (Status Internal ''wrong refresh token''),
      st\<lparr>logEvents := logEvents st @
          [\<lparr>le_InstanceID = tok_InstanceID c, le_UserID = tok_ID c, le_Type = SECURITY,
            le_Event = ''LOG_EVENT_TOKEN_REFRESH_FAILED'',
            le_Msg = ''wrong refresh token, cannot renew''\<rparr>]\<rparr>)"
proof -
  have g: "GetUserByID env st (tok_InstanceID c) (tok_ID c) = Inr u"
    using nf f by (simp add: GetUserByID_find)
  have rm: "RemoveRefreshToken u (rj_RefreshToken r) = Inl ''wrong-refresh-token''"
    using notin by (simp add: RemoveRefreshToken_def)
  show ?thesis
    using A R g rm
    by (simp add: RenewJWT_def ValidateToken_Signed SaveLogEvent_def)
qed

lemma drop_snoc_keeps_last:
  "x \<in> set (drop (length xs + 1 - 10) (xs @ [x]))"
  by simp

lemma set_drop_remove1:
  assumes "distinct ts" and "new \<noteq> rt"
  shows "rt \<notin> set (drop n (remove1 rt ts @ [new]))"
proof -
  have "set (drop n (remove1 rt ts @ [new])) \<subseteq> set (remove1 rt ts @ [new])"
    by (rule set_drop_subset)
  moreover have "rt \<notin> set (remove1 rt ts @ [new])"
    using assms by simp
  ultimately show ?thesis by blast
qed

text \<open>
  Claim C1: a user's stored refresh tokens are pairwise different and the generator returns
  a token that is not among them. A successful \<open>RenewJWT\<close> call presenting \<open>r\<close> then finds \<open>r\<close>
  in the stored list, hands out the generated token, and stores the list without \<open>r\<close> and
  with the generated token appended (the newest ten kept). A second call presenting the
  same pair, whatever the server configuration and the clock, fails with
  "wrong refresh token", records one SECURITY log event and changes nothing else: the
  user store and the temp-token store are as the first call left them.
\<close>

theorem RenewJWT_replay:
  assumes succ: "RenewJWT s env st (Some r) = (Inr resp, st')"
      and A: "rj_AccessToken r = Signed c"
      and f: "find (\<lambda>x. ID x = tok_ID c) (users st (tok_InstanceID c)) = Some u"
      and dist: "distinct (RefreshTokens (Account u))"
      and fresh: "uniqueToken env \<notin> set (RefreshTokens (Account u))"
      and nf2: "fault env2 GetUserByID_call = None"
  shows "rj_RefreshToken r \<in> set (RefreshTokens (Account u))
       \<and> tr_RefreshToken resp = uniqueToken env
       \<and> (\<exists>u'. find (\<lambda>x. ID x = tok_ID c) (users st' (tok_InstanceID c)) = Some u' \<and>
              RefreshTokens (Account u') =
                drop (length (remove1 (rj_RefreshToken r) (RefreshTokens (Account u))) + 1 - 10)
                  (remove1 (rj_RefreshToken r) (RefreshTokens (Account u)) @ [uniqueToken env]) \<and>
              rj_RefreshToken r \<notin> set (RefreshTokens (Account u')) \<and>
              uniqueToken env \<in> set (RefreshTokens (Account u')))
       \<and> RenewJWT s2 env2 st' (Some r) =
           (Inl (Status Internal ''wrong refresh token''),
            st'\<lparr>logEvents := logEvents st' @
               [\<lparr>le_InstanceID = tok_InstanceID c, le_UserID = tok_ID c, le_Type = SECURITY,
                 le_Event = ''LOG_EVENT_TOKEN_REFRESH_FAILED'',
                 le_Msg = ''wrong refresh token, cannot renew''\<rparr>]\<rparr>)
       \<and> users (snd (RenewJWT s2 env2 st' (Some r))) = users st'
       \<and> tempTokens (snd (RenewJWT s2 env2 st' (Some r))) = tempTokens st'"
proof -
  let ?rt = "rj_RefreshToken r"
  let ?ts = "RefreshTokens (Account u)"
  let ?ts' = "drop (length (remove1 ?rt ?ts) + 1 - 10) (remove1 ?rt ?ts @ [uniqueToken env])"
  let ?u' = "u\<lparr>Account := (Account u)\<lparr>RefreshTokens := ?ts'\<rparr>,
               Timestamps := (Timestamps u)\<lparr>LastTokenRefresh := now env,
                                             UpdatedAt := now env\<rparr>\<rparr>"
  from RenewJWT_success [OF succ] A f have
    h: "rj_RefreshToken r \<noteq> []"
       "fault env GetUserByID_call = None" "fault env GenerateNewToken_call = None"
       "fault env GenerateUniqueTokenString_call = None" "fault env UpdateUser_call = None"
       "rj_RefreshToken r \<in> set (RefreshTokens (Account u))"
    by auto
  note run = RenewJWT_run [OF A h(1-5) f h(6), of s]
  from run succ have rt: "tr_RefreshToken resp = uniqueToken env" by auto
  from run succ have us: "users st' = (users st)(tok_InstanceID c :=
            updateFirst (\<lambda>x. ID x = tok_ID c) (\<lambda>_. ?u') (users st (tok_InstanceID c)))"
    by auto
  have idu: "ID u = tok_ID c" using f by (auto simp: find_Some_iff)
  have f': "find (\<lambda>x. ID x = tok_ID c) (users st' (tok_InstanceID c)) = Some ?u'"
    unfolding us using find_updateFirst [OF f, of ?u'] idu by simp
  have toks: "RefreshTokens (Account ?u') = ?ts'" by simp
  have ne: "uniqueToken env \<noteq> ?rt" using fresh h(6) by auto
  have notin: "?rt \<notin> set (RefreshTokens (Account ?u'))"
    unfolding toks by (rule set_drop_remove1 [OF dist ne])
  have isin: "uniqueToken env \<in> set (RefreshTokens (Account ?u'))"
    unfolding toks by (rule drop_snoc_keeps_last)
  note second = RenewJWT_wrong_refresh [OF A h(1) nf2 f' notin, of s2]
  have ex: "\<exists>u'. find (\<lambda>x. ID x = tok_ID c) (users st' (tok_InstanceID c)) = Some u' \<and>
              RefreshTokens (Account u') = ?ts' \<and>
              rj_RefreshToken r \<notin> set (RefreshTokens (Account u')) \<and>
              uniqueToken env \<in> set (RefreshTokens (Account u'))"
    using f' toks notin isin by blast
  have u2: "users (snd (RenewJWT s2 env2 st' (Some r))) = users st'"
    and t2: "tempTokens (snd (RenewJWT s2 env2 st' (Some r))) = tempTokens st'"
    by (simp_all add: second)
  show ?thesis
    by (intro conjI) (fact h(6), fact rt, fact ex, fact second, fact u2, fact t2)
qed

lemma find_stateR:
  "find (\<lambda>x. ID x = ''u1'') (users stateR ''inst1'') = Some userR"
  by (simp add: stateR_def userR_def user1_def)

lemma renewRequest_fields:
  "rj_AccessToken renewRequest = Signed claims1" "rj_RefreshToken renewRequest = ''r1''"
  "tok_ID claims1 = ''u1''" "tok_InstanceID claims1 = ''inst1''"
  by (simp_all add: renewRequest_def claims1_def)

lemma RenewJWT_stateR:
  "\<exists>resp st'. RenewJWT server0 env0 stateR (Some renewRequest) = (Inr resp, st')"
proof -
  have f: "find (\<lambda>x. ID x = tok_ID claims1) (users stateR (tok_InstanceID claims1)) = Some userR"
    by (simp add: renewRequest_fields find_stateR)
  have rin: "rj_RefreshToken renewRequest \<in> set (RefreshTokens (Account userR))"
    by (simp add: renewRequest_fields userR_def)
  have R: "rj_RefreshToken renewRequest \<noteq> []" by (simp add: renewRequest_fields)
  have nf: "fault env0 GetUserByID_call = None" "fault env0 GenerateNewToken_call = None"
           "fault env0 GenerateUniqueTokenString_call = None" "fault env0 UpdateUser_call = None"
    by (simp_all add: env0_def)
  from RenewJWT_run [OF renewRequest_fields(1) R nf f rin, of server0] show ?thesis by blast
qed

text \<open>
  The user \<open>u1\<close> has the profiles \<open>p1\<close> (main) and \<open>p2\<close>, and presents a token selecting \<open>p2\<close>.
\<close>

theorem RenewJWT_new_token_claims_witness:
  "map_sum id tr_AccessToken (fst (RenewJWT server0 env0 stateR (Some renewRequest))) =
     Inr (Signed \<lparr>tok_ID = ''u1'', tok_InstanceID = ''inst1'', tok_ProfileID = ''p1'',
       tok_OtherProfileIDs = [''p2''], tok_AccountConfirmed = True,
       tok_Payload = \<lparr>pl_roles = [''PARTICIPANT''], pl_username = ''a@example.org''\<rparr>,
       tok_TempTokenInfos = None, tok_IssuedAt = 1000, tok_ExpiresAt = 1120\<rparr>) \<and>
   map_sum id tr_SelectedProfileId (fst (RenewJWT server0 env0 stateR (Some renewRequest))) =
     Inr ''p2''"
proof -
  from RenewJWT_stateR obtain resp st' where
    succ: "RenewJWT server0 env0 stateR (Some renewRequest) = (Inr resp, st')" by blast
  from RenewJWT_new_token_claims [OF succ renewRequest_fields(1)]
  have "tr_AccessToken resp = Signed
             \<lparr>tok_ID = tok_ID claims1, tok_InstanceID = tok_InstanceID claims1,
              tok_ProfileID = (case find p_MainProfile (Profiles userR) of
                                 None \<Rightarrow> [] | Some p \<Rightarrow> p_ID p),
              tok_OtherProfileIDs = map p_ID (filter (\<lambda>p. \<not> p_MainProfile p) (Profiles userR)),
              tok_AccountConfirmed = (0 < AccountConfirmedAt (Account userR)),
              tok_Payload = \<lparr>pl_roles = pl_roles (tok_Payload claims1),
                             pl_username = pl_username (tok_Payload claims1)\<rparr>,
              tok_TempTokenInfos = None,
              tok_IssuedAt = now env0,
              tok_ExpiresAt = now env0 + TokenExpiryInterval server0 div 1000000000\<rparr>"
    and "tr_SelectedProfileId resp = tok_ProfileID claims1"
    by (auto simp: renewRequest_fields find_stateR)
  then have tok: "tr_AccessToken resp =
     Signed \<lparr>tok_ID = ''u1'', tok_InstanceID = ''inst1'', tok_ProfileID = ''p1'',
       tok_OtherProfileIDs = [''p2''], tok_AccountConfirmed = True,
       tok_Payload = \<lparr>pl_roles = [''PARTICIPANT''], pl_username = ''a@example.org''\<rparr>,
       tok_TempTokenInfos = None, tok_IssuedAt = 1000, tok_ExpiresAt = 1120\<rparr>"
    and sel: "tr_SelectedProfileId resp = ''p2''"
    by (simp_all add: claims1_def userR_def user1_def profile1_def profileN_def env0_def
          server0_def Minute_def Second_def)
  show ?thesis by (simp add: succ tok sel)
qed

text \<open>
  Claim C2 as stated fails: the presented token carries profile id \<open>p2\<close>, other profile
  ids \<open>[p1]\<close> and temp-token infos; the token minted by \<open>RenewJWT\<close> carries profile id \<open>p1\<close>,
  other profile ids \<open>[p2]\<close> and no temp-token infos.
\<close>

theorem RenewJWT_selected_profile_counterexample:
  "rj_AccessToken renewRequest = Signed claims1 \<and>
   tok_ProfileID claims1 = ''p2'' \<and>
   tok_OtherProfileIDs claims1 = [''p1''] \<and>
   tok_TempTokenInfos claims1 = Some tempToken1 \<and>
   map_sum id (\<lambda>resp. case tr_AccessToken resp of
                  Signed c \<Rightarrow> (tok_ProfileID c, tok_OtherProfileIDs c, tok_TempTokenInfos c)
                | Opaque x \<Rightarrow> ([], [], None))
     (fst (RenewJWT server0 env0 stateR (Some renewRequest))) =
     Inr (''p1'', [''p2''], None)"
proof -
  have f: "find (\<lambda>x. ID x = tok_ID claims1) (users stateR (tok_InstanceID claims1)) = Some userR"
    by (simp add: renewRequest_fields find_stateR)
  have rin: "rj_RefreshToken renewRequest \<in> set (RefreshTokens (Account userR))"
    by (simp add: renewRequest_fields userR_def)
  have R: "rj_RefreshToken renewRequest \<noteq> []" by (simp add: renewRequest_fields)
  have nf: "fault env0 GetUserByID_call = None" "fault env0 GenerateNewToken_call = None"
           "fault env0 GenerateUniqueTokenString_call = None" "fault env0 UpdateUser_call = None"
    by (simp_all add: env0_def)
  note run = RenewJWT_run [OF renewRequest_fields(1) R nf f rin, of server0]
  have a: "rj_AccessToken renewRequest = Signed claims1" by (rule renewRequest_fields(1))
  have b: "tok_ProfileID claims1 = ''p2''" "tok_OtherProfileIDs claims1 = [''p1'']"
          "tok_TempTokenInfos claims1 = Some tempToken1"
    by (simp_all add: claims1_def)
  have c: "map_sum id (\<lambda>resp. case tr_AccessToken resp of
                  Signed c \<Rightarrow> (tok_ProfileID c, tok_OtherProfileIDs c, tok_TempTokenInfos c)
                | Opaque x \<Rightarrow> ([], [], None))
     (fst (RenewJWT server0 env0 stateR (Some renewRequest))) =
     Inr (''p1'', [''p2''], None)"
    by (simp add: run userR_def user1_def profile1_def profileN_def)
  show ?thesis by (intro conjI) (fact a, fact b(1), fact b(2), fact b(3), fact c)
qed

text \<open>
  The user \<open>u1\<close> holds the refresh tokens \<open>r0\<close>, \<open>r1\<close>, \<open>r2\<close> and presents \<open>r1\<close> twice.
\<close>

theorem RenewJWT_replay_witness:
  "map (\<lambda>u. RefreshTokens (Account u)) (users stateR ''inst1'') = [[''r0'', ''r1'', ''r2''], [''r1'']] \<and>
   map_sum id tr_RefreshToken (fst (RenewJWT server0 env0 stateR (Some renewRequest))) =
     Inr ''t-new'' \<and>
   map (\<lambda>u. RefreshTokens (Account u))
     (users (snd (RenewJWT server0 env0 stateR (Some renewRequest))) ''inst1'') =
     [[''r0'', ''r2'', ''t-new''], [''r1'']] \<and>
   fst (RenewJWT server0 (envAt 1001) (snd (RenewJWT server0 env0 stateR (Some renewRequest)))
          (Some renewRequest)) = Inl (Status Internal ''wrong refresh token'') \<and>
   users (snd (RenewJWT server0 (envAt 1001)
                 (snd (RenewJWT server0 env0 stateR (Some renewRequest))) (Some renewRequest))) =
     users (snd (RenewJWT server0 env0 stateR (Some renewRequest))) \<and>
   map le_Event (logEvents (snd (RenewJWT server0 (envAt 1001)
                 (snd (RenewJWT server0 env0 stateR (Some renewRequest))) (Some renewRequest)))) =
     [''LOG_EVENT_TOKEN_REFRESH_SUCCESS'', ''LOG_EVENT_TOKEN_REFRESH_FAILED'']"
proof -
  from RenewJWT_stateR obtain resp st' where
    succ: "RenewJWT server0 env0 stateR (Some renewRequest) = (Inr resp, st')" by blast
  have f: "find (\<lambda>x. ID x = tok_ID claims1) (users stateR (tok_InstanceID claims1)) = Some userR"
    by (simp add: renewRequest_fields find_stateR)
  have dist: "distinct (RefreshTokens (Account userR))" by (simp add: userR_def)
  have fresh: "uniqueToken env0 \<notin> set (RefreshTokens (Account userR))"
    by (simp add: userR_def env0_def)
  have nf2: "fault (envAt 1001) GetUserByID_call = None" by (simp add: envAt_def)
  note th = RenewJWT_replay [OF succ renewRequest_fields(1) f dist fresh nf2, of server0]
  have rin: "rj_RefreshToken renewRequest \<in> set (RefreshTokens (Account userR))"
    by (simp add: renewRequest_fields userR_def)
  have R: "rj_RefreshToken renewRequest \<noteq> []" by (simp add: renewRequest_fields)
  have nf: "fault env0 GetUserByID_call = None" "fault env0 GenerateNewToken_call = None"
           "fault env0 GenerateUniqueTokenString_call = None" "fault env0 UpdateUser_call = None"
    by (simp_all add: env0_def)
  note run = RenewJWT_run [OF renewRequest_fields(1) R nf f rin, of server0]
  have a: "map (\<lambda>u. RefreshTokens (Account u)) (users stateR ''inst1'') =
             [[''r0'', ''r1'', ''r2''], [''r1'']]"
    by (simp add: stateR_def userR_def user2_def user1_def)
  have b: "map_sum id tr_RefreshToken (fst (RenewJWT server0 env0 stateR (Some renewRequest))) =
     Inr ''t-new''"
  proof -
    have "tr_RefreshToken resp = ''t-new''"
      using th [THEN conjunct2, THEN conjunct1] by (simp add: env0_def)
    then show ?thesis by (simp add: succ)
  qed
  have st': "st' = snd (RenewJWT server0 env0 stateR (Some renewRequest))"
    by (simp add: succ)
  have c: "map (\<lambda>u. RefreshTokens (Account u))
     (users (snd (RenewJWT server0 env0 stateR (Some renewRequest))) ''inst1'') =
     [[''r0'', ''r2'', ''t-new''], [''r1'']]"
    unfolding run
    by (simp add: renewRequest_fields stateR_def userR_def user2_def user1_def env0_def)
  have d: "fst (RenewJWT server0 (envAt 1001)
          (snd (RenewJWT server0 env0 stateR (Some renewRequest))) (Some renewRequest)) =
        Inl (Status Internal ''wrong refresh token'')"
    using th [THEN conjunct2, THEN conjunct2, THEN conjunct2, THEN conjunct1]
    unfolding st' by simp
  have e: "users (snd (RenewJWT server0 (envAt 1001)
                 (snd (RenewJWT server0 env0 stateR (Some renewRequest))) (Some renewRequest))) =
     users (snd (RenewJWT server0 env0 stateR (Some renewRequest)))"
    using th [THEN conjunct2, THEN conjunct2, THEN conjunct2, THEN conjunct2, THEN conjunct1]
    unfolding st' by simp
  have l1: "logEvents (snd (RenewJWT server0 env0 stateR (Some renewRequest))) =
      [\<lparr>le_InstanceID = ''inst1'', le_UserID = ''u1'', le_Type = LOG,
            le_Event = ''LOG_EVENT_TOKEN_REFRESH_SUCCESS'', le_Msg = []\<rparr>]"
    unfolding run
    by (simp add: renewRequest_fields stateR_def state1_def)
  have g: "map le_Event (logEvents (snd (RenewJWT server0 (envAt 1001)
                 (snd (RenewJWT server0 env0 stateR (Some renewRequest))) (Some renewRequest)))) =
     [''LOG_EVENT_TOKEN_REFRESH_SUCCESS'', ''LOG_EVENT_TOKEN_REFRESH_FAILED'']"
    using th [THEN conjunct2, THEN conjunct2, THEN conjunct2, THEN conjunct1]
    unfolding st' by (simp add: l1)
  show ?thesis by (intro conjI) (fact a, fact b, fact c, fact d, fact e, fact g)
qed

section \<open>Properties of the profile operations\<close>

lemma allProfilesOK_iff:
  "allProfilesOK st \<longleftrightarrow>
     (\<forall>i. \<forall>u\<in>set (users st i).
        Profiles u \<noteq> [] \<and> length (filter p_MainProfile (Profiles u)) = 1)"
  by (simp add: allProfilesOK_def profilesOK_def list_all_iff)

lemma filter_updateFirst_same:
  "(\<And>x. P (f x) = P x) \<Longrightarrow>
   length (filter P (updateFirst Q f xs)) = length (filter P xs)"
  by (induction xs) auto

lemma length_updateFirst [simp]: "length (updateFirst Q f xs) = length xs"
  by (induction xs) auto

lemma updateFirst_Nil [simp]: "updateFirst Q f xs = [] \<longleftrightarrow> xs = []"
  by (cases xs) auto

lemma length_deleteFirst:
  "find Q xs = Some c \<Longrightarrow> Suc (length (deleteFirst Q xs)) = length xs"
  by (induction xs) (auto split: if_splits)

lemma filter_deleteFirst:
  "find Q xs = Some c \<Longrightarrow>
   length (filter P (deleteFirst Q xs)) + (if P c then 1 else 0) = length (filter P xs)"
  by (induction xs) (auto split: if_splits)

lemma filter_list_update:
  "j < length xs \<Longrightarrow>
   length (filter P (xs[j := y])) + (if P (xs ! j) then 1 else 0) =
   length (filter P xs) + (if P y then 1 else 0)"
proof (induction xs arbitrary: j)
  case Nil
  then show ?case by simp
next
  case (Cons x xs)
  show ?case
  proof (cases j)
    case 0
    then show ?thesis by simp
  next
    case (Suc k)
    with Cons.prems have "k < length xs" by simp
    from Cons.IH [OF this] Suc show ?thesis by simp
  qed
qed

lemma filter_none_nth:
  "length (filter P xs) = 0 \<Longrightarrow> j < length xs \<Longrightarrow> \<not> P (xs ! j)"
  by (auto simp: filter_empty_conv)

lemma promote_one:
  assumes "ps \<noteq> []" and "length (filter p_MainProfile ps) = 0"
  shows "length (filter p_MainProfile (promote i ps)) = 1 \<and> promote i ps \<noteq> []"
proof -
  define j where "j = (if i < length ps then i else 0)"
  have j: "j < length ps" using assms(1) by (simp add: j_def)
  have n: "\<not> p_MainProfile (ps ! j)" by (rule filter_none_nth [OF assms(2) j])
  have p: "promote i ps = ps[j := (ps ! j)\<lparr>p_MainProfile := True\<rparr>]"
    using j by (simp add: promote_def j_def Let_def)
  from filter_list_update [OF j, of p_MainProfile "(ps ! j)\<lparr>p_MainProfile := True\<rparr>"] n assms(2)
  have "length (filter p_MainProfile (ps[j := (ps ! j)\<lparr>p_MainProfile := True\<rparr>])) = 1"
    by simp
  with p assms(1) show ?thesis by simp
qed

lemma AddProfile_ok: "profilesOK u \<Longrightarrow> profilesOK (AddProfile env u p)"
  by (simp add: profilesOK_def AddProfile_def)

lemma UpdateProfile_ok:
  "profilesOK u \<Longrightarrow> UpdateProfile u p = Inr u' \<Longrightarrow> profilesOK u'"
  by (auto simp: profilesOK_def UpdateProfile_def filter_updateFirst_same
        split: option.splits)

lemma RemoveProfile_ok:
  assumes ok: "profilesOK u" and r: "RemoveProfile u pid = Inr u'"
  shows "profilesOK u'"
proof -
  from r obtain c where f: "find (\<lambda>c. p_ID c = pid) (Profiles u) = Some c"
    and len: "1 < length (Profiles u)"
    and u': "u' = u\<lparr>Profiles :=
        (if p_MainProfile c
         then promote (length (takeWhile (\<lambda>c. p_ID c \<noteq> pid) (Profiles u)))
                (deleteFirst (\<lambda>c. p_ID c = pid) (Profiles u))
         else deleteFirst (\<lambda>c. p_ID c = pid) (Profiles u))\<rparr>"
    by (auto simp: RemoveProfile_def Let_def split: option.splits if_splits)
  let ?rest = "deleteFirst (\<lambda>c. p_ID c = pid) (Profiles u)"
  from length_deleteFirst [OF f] len have ne: "?rest \<noteq> []" by auto
  from ok have one: "length (filter p_MainProfile (Profiles u)) = 1"
    by (simp add: profilesOK_def)
  show ?thesis
  proof (cases "p_MainProfile c")
    case True
    with filter_deleteFirst [OF f, of p_MainProfile] one
    have "length (filter p_MainProfile ?rest) = 0" by simp
    from promote_one [OF ne this] True show ?thesis
      by (simp add: u' profilesOK_def)
  next
    case False
    with filter_deleteFirst [OF f, of p_MainProfile] one
    have "length (filter p_MainProfile ?rest) = 1" by simp
    with ne False show ?thesis by (simp add: u' profilesOK_def)
  qed
qed

lemma list_all_updateFirst:
  "list_all P xs \<Longrightarrow> P v \<Longrightarrow> list_all P (updateFirst Q (\<lambda>_. v) xs)"
  by (induction xs) auto

lemma UpdateUser_ok:
  assumes "allProfilesOK st" and "profilesOK u"
  shows "allProfilesOK (snd (UpdateUser env st i u))"
proof -
  have "profilesOK (u\<lparr>Timestamps := (Timestamps u)\<lparr>UpdatedAt := now env\<rparr>\<rparr>)"
    using assms(2) by (simp add: profilesOK_def)
  with assms(1) show ?thesis
    by (auto simp: UpdateUser_find allProfilesOK_def list_all_updateFirst
          split: option.splits)
qed

lemma SaveLogEvent_ok [simp]:
  "allProfilesOK (SaveLogEvent st a b c d e) = allProfilesOK st"
  by (simp add: allProfilesOK_def SaveLogEvent_def)

lemma GetUserByID_ok:
  assumes "allProfilesOK st" and "GetUserByID env st i uid = Inr u"
  shows "profilesOK u"
proof -
  from assms(2) have "find (\<lambda>u. ID u = uid) (users st i) = Some u"
    by (auto simp: GetUserByID_find split: option.splits)
  then have "u \<in> set (users st i)" by (auto simp: find_Some_iff)
  with assms(1) show ?thesis by (auto simp: allProfilesOK_def list_all_iff)
qed

lemma SaveProfile_ok:
  assumes inv: "allProfilesOK st"
  shows "allProfilesOK (snd (SaveProfile n env st req))"
proof (cases req)
  case None
  with inv show ?thesis by (simp add: SaveProfile_def)
next
  case (Some r)
  show ?thesis
  proof (cases "pr_Token r")
    case None
    with inv Some show ?thesis by (simp add: SaveProfile_def)
  next
    case tok: (Some tok)
    show ?thesis
    proof (cases "pr_Profile r")
      case None
      with inv Some tok show ?thesis by (simp add: SaveProfile_def)
    next
      case prof: (Some p)
      show ?thesis
      proof (cases "GetUserByID env st (ti_InstanceId tok) (ti_Id tok)")
        case (Inl e)
        with inv Some tok prof show ?thesis by (simp add: SaveProfile_def)
      next
        case (Inr u)
        from GetUserByID_ok [OF inv Inr] have ok: "profilesOK u" .
        have upd: "\<And>v. profilesOK v \<Longrightarrow>
            allProfilesOK (snd (UpdateUser env st (ti_InstanceId tok) v))"
          by (rule UpdateUser_ok [OF inv])
        show ?thesis
        proof (cases "p_ID p = []")
          case True
          from upd [OF AddProfile_ok [OF ok, of env p]] inv Some tok prof Inr True
          show ?thesis
            by (auto simp: SaveProfile_def split: prod.splits sum.splits)
        next
          case False
          show ?thesis
          proof (cases "UpdateProfile u p")
            case (Inl e)
            with inv Some tok prof Inr False show ?thesis
              by (simp add: SaveProfile_def)
          next
            case u': (Inr u')
            from upd [OF UpdateProfile_ok [OF ok u']] inv Some tok prof Inr False u'
            show ?thesis
              by (auto simp: SaveProfile_def split: prod.splits sum.splits)
          qed
        qed
      qed
    qed
  qed
qed

lemma RemoveProfileEndpoint_ok:
  assumes inv: "allProfilesOK st"
  shows "allProfilesOK (snd (RemoveProfileEndpoint env st req))"
proof (cases req)
  case None
  with inv show ?thesis by (simp add: RemoveProfileEndpoint_def)
next
  case (Some r)
  show ?thesis
  proof (cases "pr_Token r")
    case None
    with inv Some show ?thesis by (simp add: RemoveProfileEndpoint_def)
  next
    case tok: (Some tok)
    show ?thesis
    proof (cases "pr_Profile r")
      case None
      with inv Some tok show ?thesis by (simp add: RemoveProfileEndpoint_def)
    next
      case prof: (Some p)
      show ?thesis
      proof (cases "GetUserByID env st (ti_InstanceId tok) (ti_Id tok)")
        case (Inl e)
        with inv Some tok prof show ?thesis by (simp add: RemoveProfileEndpoint_def)
      next
        case (Inr u)
        from GetUserByID_ok [OF inv Inr] have ok: "profilesOK u" .
        show ?thesis
        proof (cases "RemoveProfile u (p_ID p)")
          case (Inl e)
          with inv Some tok prof Inr show ?thesis
            by (simp add: RemoveProfileEndpoint_def)
        next
          case u': (Inr u')
          from UpdateUser_ok [OF inv RemoveProfile_ok [OF ok u'], of env "ti_InstanceId tok"]
            inv Some tok prof Inr u'
          show ?thesis
            by (auto simp: RemoveProfileEndpoint_def split: prod.splits sum.splits)
        qed
      qed
    qed
  qed
qed

lemma runProfileCalls_ok:
  "allProfilesOK st \<Longrightarrow> allProfilesOK (runProfileCalls n st calls)"
proof (induction calls arbitrary: st)
  case Nil
  then show ?case by simp
next
  case (Cons c cs)
  have "allProfilesOK (profileStep n st c)"
    using Cons.prems by (cases c) (simp_all add: SaveProfile_ok RemoveProfileEndpoint_ok)
  from Cons.IH [OF this] show ?case by simp
qed

lemma RemoveProfileEndpoint_last:
  assumes "pr_Token r = Some tok" and "pr_Profile r = Some p"
      and "ti_Id tok \<noteq> []" and "ti_InstanceId tok \<noteq> []"
      and "fault env GetUserByID_call = None"
      and "find (\<lambda>x. ID x = ti_Id tok) (users st (ti_InstanceId tok)) = Some u"
      and "length (Profiles u) = 1"
  shows "RemoveProfileEndpoint env st (Some r) =
           (Inl (Status Internal ''can't delete last profile''), st)"
  using assms by (simp add: RemoveProfileEndpoint_def GetUserByID_find)

text \<open>
  Claim C5: in a state where every stored user has a non-empty profile list with exactly
  one main profile, the same holds after any \<open>SaveProfile\<close> call (add or update), after any
  \<open>RemoveProfile\<close> call, and after any sequence of such calls, whatever the requests, the
  clock and the failures of the store. In particular a \<open>RemoveProfile\<close> call for a stored
  user with exactly one profile fails with "can't delete last profile" and leaves the
  state as it was.
\<close>

theorem profile_invariant:
  assumes inv: "\<forall>i. \<forall>u\<in>set (users st i).
                  Profiles u \<noteq> [] \<and> length (filter p_MainProfile (Profiles u)) = 1"
  shows "(\<forall>i. \<forall>u\<in>set (users (snd (SaveProfile n env st req)) i).
            Profiles u \<noteq> [] \<and> length (filter p_MainProfile (Profiles u)) = 1)
       \<and> (\<forall>i. \<forall>u\<in>set (users (snd (RemoveProfileEndpoint env st req)) i).
            Profiles u \<noteq> [] \<and> length (filter p_MainProfile (Profiles u)) = 1)
       \<and> (\<forall>i. \<forall>u\<in>set (users (runProfileCalls n st calls) i).
            Profiles u \<noteq> [] \<and> length (filter p_MainProfile (Profiles u)) = 1)
       \<and> (\<forall>r tok p u.
            pr_Token r = Some tok \<and> pr_Profile r = Some p \<and>
            ti_Id tok \<noteq> [] \<and> ti_InstanceId tok \<noteq> [] \<and>
            fault env GetUserByID_call = None \<and>
            find (\<lambda>x. ID x = ti_Id tok) (users st (ti_InstanceId tok)) = Some u \<and>
            length (Profiles u) = 1
            \<longrightarrow> RemoveProfileEndpoint env st (Some r) =
                  (Inl (Status Internal ''can't delete last profile''), st))"
proof -
  from inv have ok: "allProfilesOK st" by (simp add: allProfilesOK_iff)
  have a: "\<forall>i. \<forall>u\<in>set (users (snd (SaveProfile n env st req)) i).
            Profiles u \<noteq> [] \<and> length (filter p_MainProfile (Profiles u)) = 1"
    using SaveProfile_ok [OF ok, of n env req] by (simp add: allProfilesOK_iff)
  have b: "\<forall>i. \<forall>u\<in>set (users (snd (RemoveProfileEndpoint env st req)) i).
            Profiles u \<noteq> [] \<and> length (filter p_MainProfile (Profiles u)) = 1"
    using RemoveProfileEndpoint_ok [OF ok, of env req] by (simp add: allProfilesOK_iff)
  have c: "\<forall>i. \<forall>u\<in>set (users (runProfileCalls n st calls) i).
            Profiles u \<noteq> [] \<and> length (filter p_MainProfile (Profiles u)) = 1"
    using runProfileCalls_ok [OF ok, of n calls] by (simp add: allProfilesOK_iff)
  have d: "\<forall>r tok p u.
            pr_Token r = Some tok \<and> pr_Profile r = Some p \<and>
            ti_Id tok \<noteq> [] \<and> ti_InstanceId tok \<noteq> [] \<and>
            fault env GetUserByID_call = None \<and>
            find (\<lambda>x. ID x = ti_Id tok) (users st (ti_InstanceId tok)) = Some u \<and>
            length (Profiles u) = 1
            \<longrightarrow> RemoveProfileEndpoint env st (Some r) =
                  (Inl (Status Internal ''can't delete last profile''), st)"
    using RemoveProfileEndpoint_last by blast
  show ?thesis by (intro conjI) (fact a, fact b, fact c, fact d)
qed

lemma token1_fields: "ti_Id token1 = ''u1''" "ti_InstanceId token1 = ''inst1''"
  by (simp_all add: token1_def)

lemma step1:
  "RemoveProfileEndpoint env0 state1 (Some mainRequest) =
     (Inl (Status Internal ''can't delete last profile''), state1)"
  by (simp add: RemoveProfileEndpoint_def GetUserByID_find mainRequest_def token1_fields
        env0_def state1_def user1_def)

lemma run_profileCalls4:
  "map (\<lambda>u. map (\<lambda>p. (p_ID p, p_Alias p, p_MainProfile p)) (Profiles u))
     (users (runProfileCalls 6 state1 profileCalls4) ''inst1'') =
   [[(''p9'', ''second'', True)]]"
  by (simp add: profileCalls4_def step1)
     (simp add: SaveProfile_def RemoveProfileEndpoint_def GetUserByID_find UpdateUser_find
        AddProfile_def UpdateProfile_def RemoveProfile_def promote_def Let_def
        SaveLogEvent_def mainRequest_def secondRequest_def token1_fields
        env0_def state1_def user1_def profile1_def)

text \<open>
  The user \<open>u1\<close> has the single profile \<open>p1\<close>. Removing it is refused; a second profile is
  added (the request asks for it to be the main profile, and it is stored as a secondary
  one); an update of \<open>p1\<close> asking to drop the main flag keeps it; removing \<open>p1\<close> then makes
  the second profile the main one.
\<close>

theorem profile_invariant_witness:
  "map (\<lambda>u. map (\<lambda>p. (p_ID p, p_MainProfile p)) (Profiles u)) (users state1 ''inst1'') =
     [[(''p1'', True)]] \<and>
   RemoveProfileEndpoint env0 state1 (Some mainRequest) =
     (Inl (Status Internal ''can't delete last profile''), state1) \<and>
   map (\<lambda>u. map (\<lambda>p. (p_ID p, p_Alias p, p_MainProfile p)) (Profiles u))
     (users (snd (SaveProfile 6 env0 state1 (Some secondRequest))) ''inst1'') =
     [[(''p1'', ''main'', True), (''p9'', ''second'', False)]] \<and>
   map (\<lambda>u. map (\<lambda>p. (p_ID p, p_Alias p, p_MainProfile p)) (Profiles u))
     (users (runProfileCalls 6 state1 profileCalls4) ''inst1'') =
     [[(''p9'', ''second'', True)]] \<and>
   list_all (\<lambda>u. Profiles u \<noteq> [] \<and> length (filter p_MainProfile (Profiles u)) = 1)
     (users (runProfileCalls 6 state1 profileCalls4) ''inst1'')"
proof -
  have inv: "\<forall>i. \<forall>u\<in>set (users state1 i).
                  Profiles u \<noteq> [] \<and> length (filter p_MainProfile (Profiles u)) = 1"
    by (simp add: state1_def user1_def profile1_def)
  note th = profile_invariant [OF inv, of 6 env0 "Some mainRequest" profileCalls4]
  have a: "map (\<lambda>u. map (\<lambda>p. (p_ID p, p_MainProfile p)) (Profiles u)) (users state1 ''inst1'') =
     [[(''p1'', True)]]"
    by (simp add: state1_def user1_def profile1_def)
  have f: "find (\<lambda>x. ID x = ti_Id token1) (users state1 (ti_InstanceId token1)) = Some user1"
    by (simp add: token1_fields state1_def user1_def)
  have b: "RemoveProfileEndpoint env0 state1 (Some mainRequest) =
     (Inl (Status Internal ''can't delete last profile''), state1)"
    using th [THEN conjunct2, THEN conjunct2, THEN conjunct2, THEN spec, THEN spec, THEN spec,
              THEN spec, of mainRequest token1 _ user1] f
    by (simp add: mainRequest_def token1_fields env0_def user1_def)
  have c: "map (\<lambda>u. map (\<lambda>p. (p_ID p, p_Alias p, p_MainProfile p)) (Profiles u))
     (users (snd (SaveProfile 6 env0 state1 (Some secondRequest))) ''inst1'') =
     [[(''p1'', ''main'', True), (''p9'', ''second'', False)]]"
    by (simp add: SaveProfile_def GetUserByID_find UpdateUser_find
        AddProfile_def SaveLogEvent_def secondRequest_def token1_fields
        env0_def state1_def user1_def profile1_def)
  have d: "list_all (\<lambda>u. Profiles u \<noteq> [] \<and> length (filter p_MainProfile (Profiles u)) = 1)
     (users (runProfileCalls 6 state1 profileCalls4) ''inst1'')"
    using th [THEN conjunct2, THEN conjunct2, THEN conjunct1] by (simp add: list_all_iff)
  show ?thesis by (intro conjI) (fact a, fact b, fact c, fact run_profileCalls4, fact d)
qed

section \<open>Properties of the password reset\<close>

lemma splitDots_accountID: "splitDots ''account.accountID'' = [''account'', ''accountID'']"
  by simp

lemma getPath_accountID:
  "getPath [''account'', ''accountID''] (toBSON u) = Some (BStr (AccountID (Account u)))"
  by (simp add: toBSON_def accountToBSON_def)

lemma userMatches_accountID_fun:
  "userMatches (Field ''account.accountID'' (QEq (BStr a))) = (\<lambda>u. AccountID (Account u) = a)"
  by (rule ext)
     (simp only: userMatches_def matches.simps splitDots_accountID getPath_accountID, simp)

lemma InitiatePasswordReset_OK:
  assumes "ir_InstanceId r \<noteq> []" and "ir_AccountId r \<noteq> []"
      and "ir_InstanceId r \<in> set (instanceIDs s)"
  shows "fst (InitiatePasswordReset s env st (Some r)) = Inr (ServiceStatus_NORMAL ''OK'')"
  using assms
  by (simp add: InitiatePasswordReset_def isInstanceIDAllowed_def Let_def
        split: sum.splits prod.splits)

text \<open>
  Claim C8: for every well-formed request (instance id and account id non-empty, the
  instance registered with the server) \<open>InitiatePasswordReset\<close> answers \<open>OK\<close>, whatever the
  user store holds, the clock reads and the collaborators do; so two runs, one for an
  account that exists and one for an account that does not, give the same response.
\<close>

theorem InitiatePasswordReset_same_response:
  assumes "ir_InstanceId r \<noteq> []" and "ir_AccountId r \<noteq> []"
      and "ir_InstanceId r \<in> set (instanceIDs s)"
      and "ir_InstanceId r' \<noteq> []" and "ir_AccountId r' \<noteq> []"
      and "ir_InstanceId r' \<in> set (instanceIDs s')"
  shows "fst (InitiatePasswordReset s env st (Some r)) = Inr (ServiceStatus_NORMAL ''OK'')
       \<and> fst (InitiatePasswordReset s' env' st' (Some r')) = Inr (ServiceStatus_NORMAL ''OK'')
       \<and> fst (InitiatePasswordReset s env st (Some r)) =
         fst (InitiatePasswordReset s' env' st' (Some r'))"
  using InitiatePasswordReset_OK [OF assms(1-3), of env st]
        InitiatePasswordReset_OK [OF assms(4-6), of env' st']
  by simp

lemma InitiatePasswordReset_known:
  "snd (InitiatePasswordReset server0 env0 state1 (Some resetKnown)) =
     state1\<lparr>users := (users state1)(''inst1'' :=
               [user1\<lparr>Account := (Account user1)\<lparr>PasswordResetTriggers := [1000]\<rparr>\<rparr>]),
            tempTokens := [tempToken1,
               \<lparr>tt_Token = ''t-new'', tt_UserID = ''u1'', tt_InstanceID = ''inst1'',
                tt_Purpose = ''password-reset'', tt_Info = [], tt_Expiration = 1900\<rparr>],
            emails := [\<lparr>em_InstanceID = ''inst1'', em_To = [''a@example.org''],
                        em_MessageType = ''EMAIL_TYPE_PASSWORD_RESET''\<rparr>]\<rparr>"
  by (simp add: InitiatePasswordReset_def isInstanceIDAllowed_def Let_def
        GetUserByAccountID_def CanTriggerPasswordReset_def AddTempToken_def
        GenerateUniqueTokenString_def GetExpirationTime_def SavePasswordResetTrigger_def
        SendInstantEmail_def setUsers_def userMatches_id_fun userMatches_accountID_fun
        Minute_def Second_def resetKnown_def server0_def env0_def state1_def user1_def
        fun_eq_iff)

lemma InitiatePasswordReset_unknown:
  "snd (InitiatePasswordReset server0 env0 state1 (Some resetUnknown)) = state1"
  by (simp add: InitiatePasswordReset_def isInstanceIDAllowed_def Let_def
        GetUserByAccountID_def userMatches_accountID_fun resetUnknown_def server0_def env0_def state1_def user1_def)

text \<open>
  On \<open>inst1\<close>, which stores the account \<open>a@example.org\<close> only: a reset for that account sends
  one email, a reset for \<open>wrong@test.test\<close> changes nothing, and both answer \<open>OK\<close>.
\<close>

theorem InitiatePasswordReset_same_response_witness:
  "fst (InitiatePasswordReset server0 env0 state1 (Some resetKnown)) =
     Inr (ServiceStatus_NORMAL ''OK'') \<and>
   fst (InitiatePasswordReset server0 env0 state1 (Some resetUnknown)) =
     Inr (ServiceStatus_NORMAL ''OK'') \<and>
   map AccountID (map Account (users state1 ''inst1'')) = [''a@example.org''] \<and>
   emails (snd (InitiatePasswordReset server0 env0 state1 (Some resetKnown))) =
     [\<lparr>em_InstanceID = ''inst1'', em_To = [''a@example.org''],
       em_MessageType = ''EMAIL_TYPE_PASSWORD_RESET''\<rparr>] \<and>
   snd (InitiatePasswordReset server0 env0 state1 (Some resetUnknown)) = state1"
proof -
  have w: "ir_InstanceId resetKnown \<noteq> []" "ir_AccountId resetKnown \<noteq> []"
          "ir_InstanceId resetKnown \<in> set (instanceIDs server0)"
          "ir_InstanceId resetUnknown \<noteq> []" "ir_AccountId resetUnknown \<noteq> []"
          "ir_InstanceId resetUnknown \<in> set (instanceIDs server0)"
    by (simp_all add: resetKnown_def resetUnknown_def server0_def)
  note th = InitiatePasswordReset_same_response [OF w, of env0 state1 env0 state1]
  have a: "map AccountID (map Account (users state1 ''inst1'')) = [''a@example.org'']"
    by (simp add: state1_def user1_def)
  have b: "emails (snd (InitiatePasswordReset server0 env0 state1 (Some resetKnown))) =
     [\<lparr>em_InstanceID = ''inst1'', em_To = [''a@example.org''],
       em_MessageType = ''EMAIL_TYPE_PASSWORD_RESET''\<rparr>]"
    by (simp add: InitiatePasswordReset_known)
  show ?thesis
    by (intro conjI)
       (fact th [THEN conjunct1], fact th [THEN conjunct2, THEN conjunct1], fact a, fact b,
        fact InitiatePasswordReset_unknown)
qed

end
